theory Spec2Isabelle
  imports Complex_Main
begin

section \<open>JavaScript numbers\<close>

text \<open>
  Every numeric value of the source has the TypeScript type \<open>number\<close>. It is modelled as
  a real: the arithmetic of the source is read over the reals, so rounding error, NaN and the
  infinities of IEEE doubles are outside the model. The \<open>Math\<close> functions return a
  \<open>number\<close> again, hence the \<open>of_int\<close>.
\<close>

type_synonym number = real

definition Math_floor :: "number \<Rightarrow> number" where
  "Math_floor x = of_int \<lfloor>x\<rfloor>"

definition Math_ceil :: "number \<Rightarrow> number" where
  "Math_ceil x = of_int \<lceil>x\<rceil>"

text \<open>\<open>Math.round\<close> rounds to the nearest integer, a half towards plus infinity.\<close>

definition Math_round :: "number \<Rightarrow> number" where
  "Math_round x = of_int \<lfloor>x + 1 / 2\<rfloor>"

definition Math_max :: "number \<Rightarrow> number \<Rightarrow> number" where
  "Math_max a b = (if a < b then b else a)"

text \<open>
  The operator \<open>%\<close> is the remainder of the division truncated towards zero: the result has
  the sign of the dividend (\<open>-3 % 2\<close> is \<open>-1\<close>). It is only used with a nonzero divisor.
\<close>

definition js_trunc :: "number \<Rightarrow> int" where
  "js_trunc x = (if 0 \<le> x then \<lfloor>x\<rfloor> else \<lceil>x\<rceil>)"

definition js_rem :: "number \<Rightarrow> number \<Rightarrow> number" where
  "js_rem a b = a - b * of_int (js_trunc (a / b))"

text \<open>
  \<open>Math.PI\<close> is the double nearest to the number pi, \<open>884279719003555 / 2 ^ 48\<close>.
\<close>

definition Math_PI :: number where
  "Math_PI = 884279719003555 / 281474976710656"

text \<open>A string is truthy when it is not empty; an absent optional string is falsy.\<close>

definition truthy :: "string \<Rightarrow> bool" where
  "truthy s = (s \<noteq> [])"

definition truthy_opt :: "string option \<Rightarrow> bool" where
  "truthy_opt s = (case s of None \<Rightarrow> False | Some c \<Rightarrow> truthy c)"

section \<open>The data of the price axis view renderer\<close>

text \<open>
  The interfaces are declared in \<open>iprice-axis-view-renderer\<close>; the records hold the fields
  the renderer reads. The field \<open>text\<close> is \<open>labelText\<close> here.
\<close>

record PriceAxisViewRendererData =
  visible :: bool
  labelText :: string
  color :: string
  tickVisible :: bool
  borderVisible :: bool
  separatorVisible :: bool
  moveTextToInvisibleTick :: bool

record PriceAxisViewRendererCommonData =
  background :: string
  coordinate :: number
  fixedCoordinate :: "number option"
  additionalPaddingTop :: number
  additionalPaddingBottom :: number

record PriceAxisViewRendererOptions =
  font :: string
  fontSize :: number
  paddingTop :: number
  paddingBottom :: number
  paddingInner :: number
  paddingOuter :: number
  tickLength :: number
  borderSize :: number
  paneBackgroundColor :: string

text \<open>
  The text width cache is a collaborator: both of its methods read the font of the context
  and the text.
\<close>

record TextWidthCache =
  measureText :: "string \<Rightarrow> string \<Rightarrow> number"
  yMidCorrection :: "string \<Rightarrow> string \<Rightarrow> number"

record Size =
  width :: number
  height :: number

text \<open>The rendering scope; \<open>contextFont\<close> is the font of its context.\<close>

record BitmapCoordinatesRenderingScope =
  contextFont :: string
  bitmapSize :: Size
  mediaSize :: Size
  horizontalPixelRatio :: number
  verticalPixelRatio :: number

datatype Align = AlignLeft | AlignRight

text \<open>
  The two groups of the interface \<open>Geometry\<close>. Field \<open>yTop\<close> of group \<open>bitmap\<close> is
  \<open>b_yTop\<close>, field \<open>yTop\<close> of group \<open>media\<close> is \<open>m_yTop\<close>, and so on.
\<close>

record GeometryBitmap =
  b_yTop :: number
  b_yMid :: number
  b_yBottom :: number
  b_totalWidth :: number
  b_totalHeight :: number
  b_radius :: number
  b_horzBorder :: number
  b_xOutside :: number
  b_xInside :: number
  b_xTick :: number
  b_tickHeight :: number
  b_right :: number

record GeometryMedia =
  m_yTop :: number
  m_yBottom :: number
  m_xText :: number
  m_textMidCorrection :: number

record Geometry =
  alignRight :: bool
  bitmap :: GeometryBitmap
  media :: GeometryMedia

record PriceAxisViewRenderer =
  data :: PriceAxisViewRendererData
  commonData :: PriceAxisViewRendererCommonData
  iconColor :: "string option"

definition CLOSE_BUTTON_SIZE :: number where
  "CLOSE_BUTTON_SIZE = 16"

definition ICON_SIZE :: number where
  "ICON_SIZE = 13"

section \<open>The geometry engine\<close>

text \<open>The local constants of \<open>_calculateGeometry\<close>, in the order of the source.\<close>

definition tickSize :: "PriceAxisViewRenderer \<Rightarrow> PriceAxisViewRendererOptions \<Rightarrow> number" where
  "tickSize this rendererOptions =
     (if tickVisible (data this) \<or> \<not> moveTextToInvisibleTick (data this)
      then tickLength rendererOptions else 0)"

definition horzBorder :: "PriceAxisViewRenderer \<Rightarrow> PriceAxisViewRendererOptions \<Rightarrow> number" where
  "horzBorder this rendererOptions =
     (if separatorVisible (data this) then borderSize rendererOptions else 0)"

definition textWidth ::
  "PriceAxisViewRenderer \<Rightarrow> TextWidthCache \<Rightarrow> string \<Rightarrow> number" where
  "textWidth this textWidthCache ctxFont =
     (if truthy_opt (iconColor this) then ICON_SIZE
      else Math_ceil (measureText textWidthCache ctxFont (labelText (data this))))"

definition totalHeight :: "PriceAxisViewRenderer \<Rightarrow> PriceAxisViewRendererOptions \<Rightarrow> number" where
  "totalHeight this rendererOptions =
     (let paddingTop' = paddingTop rendererOptions + additionalPaddingTop (commonData this);
          paddingBottom' = paddingBottom rendererOptions + additionalPaddingBottom (commonData this);
          actualTextHeight = fontSize rendererOptions
      in actualTextHeight + paddingTop' + paddingBottom')"

definition totalWidth ::
  "PriceAxisViewRenderer \<Rightarrow> PriceAxisViewRendererOptions \<Rightarrow> TextWidthCache \<Rightarrow> string \<Rightarrow> bool
     \<Rightarrow> number" where
  "totalWidth this rendererOptions textWidthCache ctxFont closeButton =
     borderSize rendererOptions + paddingInner rendererOptions + paddingOuter rendererOptions
       + textWidth this textWidthCache ctxFont + tickSize this rendererOptions
       + (if closeButton then CLOSE_BUTTON_SIZE else 0)"

definition tickHeightBitmap :: "number \<Rightarrow> number" where
  "tickHeightBitmap verticalPixelRatio' = Math_max 1 (Math_floor verticalPixelRatio')"

text \<open>
  The parity step: the statement \<open>if (totalHeightBitmap % 2 !== tickHeightBitmap % 2)
  totalHeightBitmap += 1\<close>, as a function of the two values it reads.
\<close>

definition adjustParity :: "number \<Rightarrow> number \<Rightarrow> number" where
  "adjustParity totalHeightBitmap' tickHeightBitmap' =
     (if js_rem totalHeightBitmap' 2 \<noteq> js_rem tickHeightBitmap' 2
      then totalHeightBitmap' + 1 else totalHeightBitmap')"

definition totalHeightBitmap :: "number \<Rightarrow> number \<Rightarrow> number" where
  "totalHeightBitmap totalHeight' verticalPixelRatio' =
     adjustParity (Math_round (totalHeight' * verticalPixelRatio'))
       (tickHeightBitmap verticalPixelRatio')"

definition calculateGeometry ::
  "PriceAxisViewRenderer \<Rightarrow> BitmapCoordinatesRenderingScope \<Rightarrow> PriceAxisViewRendererOptions
     \<Rightarrow> TextWidthCache \<Rightarrow> Align \<Rightarrow> bool \<Rightarrow> Geometry" where
  "calculateGeometry this scope rendererOptions textWidthCache align closeButton =
     (let hpr = horizontalPixelRatio scope;
          vpr = verticalPixelRatio scope;
          tickSize' = tickSize this rendererOptions;
          horzBorder' = horzBorder this rendererOptions;
          paddingInner' = paddingInner rendererOptions;
          textMidCorrection = yMidCorrection textWidthCache (contextFont scope) (labelText (data this));
          totalHeight' = totalHeight this rendererOptions;
          totalWidth' = totalWidth this rendererOptions textWidthCache (contextFont scope) closeButton;
          tickHeightBitmap' = tickHeightBitmap vpr;
          totalHeightBitmap' = totalHeightBitmap totalHeight' vpr;
          horzBorderBitmap =
            (if 0 < horzBorder' then Math_max 1 (Math_floor (horzBorder' * hpr)) else 0);
          totalWidthBitmap = Math_round (totalWidth' * hpr);
          tickSizeBitmap = Math_round (tickSize' * hpr);
          yMid = (case fixedCoordinate (commonData this) of
                    Some c \<Rightarrow> c | None \<Rightarrow> coordinate (commonData this));
          yMidBitmap = Math_round (yMid * vpr) - Math_floor (vpr * (1 / 2));
          yTopBitmap = Math_floor (yMidBitmap + tickHeightBitmap' / 2 - totalHeightBitmap' / 2);
          yBottomBitmap = yTopBitmap + totalHeightBitmap';
          alignRight' = (align = AlignRight);
          xInside = (if alignRight' then width (mediaSize scope) - horzBorder' else horzBorder');
          xInsideBitmap =
            (if alignRight' then width (bitmapSize scope) - horzBorderBitmap else horzBorderBitmap);
          xOutsideBitmap =
            (if alignRight' then xInsideBitmap - totalWidthBitmap
             else xInsideBitmap + totalWidthBitmap);
          xTickBitmap =
            (if alignRight' then xInsideBitmap - tickSizeBitmap else xInsideBitmap + tickSizeBitmap);
          xText =
            (if alignRight' then xInside - tickSize' - paddingInner' - horzBorder'
             else xInside + tickSize' + paddingInner')
      in \<lparr> alignRight = alignRight',
           bitmap = \<lparr> b_yTop = yTopBitmap,
                      b_yMid = yMidBitmap,
                      b_yBottom = yBottomBitmap,
                      b_totalWidth = totalWidthBitmap,
                      b_totalHeight = totalHeightBitmap',
                      b_radius = 2 * hpr,
                      b_horzBorder = horzBorderBitmap,
                      b_xOutside = xOutsideBitmap,
                      b_xInside = xInsideBitmap,
                      b_xTick = xTickBitmap,
                      b_tickHeight = tickHeightBitmap',
                      b_right = width (bitmapSize scope) \<rparr>,
           media = \<lparr> m_yTop = yTopBitmap / vpr,
                     m_yBottom = yBottomBitmap / vpr,
                     m_xText = xText,
                     m_textMidCorrection = textMidCorrection \<rparr> \<rparr>)"

text \<open>
  The method \<open>height\<close> of the renderer (the name \<open>height\<close> is the field of \<open>Size\<close>
  here); its second parameter \<open>useSecondLine\<close> is not read.
\<close>

definition renderer_height ::
  "PriceAxisViewRenderer \<Rightarrow> PriceAxisViewRendererOptions \<Rightarrow> bool \<Rightarrow> number" where
  "renderer_height this rendererOptions useSecondLine =
     (if \<not> visible (data this) then 0
      else fontSize rendererOptions + paddingTop rendererOptions + paddingBottom rendererOptions)"

section \<open>The drawing surface\<close>

text \<open>
  The helpers draw on a \<open>CanvasRenderingContext2D\<close>. A helper is modelled by the list of
  the calls and property assignments it issues on the context, in order. A gradient is built by
  calls of its own (\<open>createLinearGradient\<close>, \<open>addColorStop\<close>) and then assigned as a
  fill style.
\<close>

type_synonym LeftTopRightTopRightBottomLeftBottomRadii = "number \<times> number \<times> number \<times> number"

datatype style =
    Color string
  | LinearGradient number number number number "(number \<times> string) list"

datatype canvas_call =
    Save
  | Restore
  | SetGlobalCompositeOperation string
  | SetFillStyle style
  | SetStrokeStyle style
  | SetLineWidth number
  | SetFont string
  | SetTextAlign string
  | SetTextBaseline string
  | CreateLinearGradient number number number number
  | AddColorStop number string
  | FillRect number number number number
  | BeginPath
  | ClosePath
  | RoundRect number number number number LeftTopRightTopRightBottomLeftBottomRadii
  | MoveTo number number
  | LineTo number number
  | ArcTo number number number number number
  | Arc number number number number number bool
  | Fill
  | Stroke
  | FillText string number number

fun isFill :: "canvas_call \<Rightarrow> bool" where
  "isFill Fill = True"
| "isFill _ = False"

fun isFillRect :: "canvas_call \<Rightarrow> bool" where
  "isFillRect (FillRect x y w h) = True"
| "isFillRect _ = False"

fun isRoundRect :: "canvas_call \<Rightarrow> bool" where
  "isRoundRect (RoundRect x y w h r) = True"
| "isRoundRect _ = False"

fun isArcTo :: "canvas_call \<Rightarrow> bool" where
  "isArcTo (ArcTo x1 y1 x2 y2 r) = True"
| "isArcTo _ = False"

fun isPathCall :: "canvas_call \<Rightarrow> bool" where
  "isPathCall ClosePath = True"
| "isPathCall (RoundRect x y w h r) = True"
| "isPathCall (MoveTo x y) = True"
| "isPathCall (LineTo x y) = True"
| "isPathCall (ArcTo x1 y1 x2 y2 r) = True"
| "isPathCall (Arc x y r a b c) = True"
| "isPathCall _ = False"

text \<open>
  The state of the context, as the Canvas API defines it: \<open>save\<close> pushes the drawing state
  (the style properties) on a stack and \<open>restore\<close> pops it, doing nothing on an empty stack;
  the current path is not part of the drawing state; \<open>beginPath\<close> empties the path,
  \<open>fill\<close> and \<open>stroke\<close> paint the current path. The property \<open>font\<close> of the context
  is \<open>ctxFont\<close>.
\<close>

record DrawingState =
  fillStyle :: style
  strokeStyle :: style
  lineWidth :: number
  globalCompositeOperation :: string
  ctxFont :: string
  textAlign :: string
  textBaseline :: string

datatype paint =
    FilledPath "canvas_call list" style
  | StrokedPath "canvas_call list" style number
  | FilledRect number number number number style string
  | FilledText string number number DrawingState

record Context =
  current :: DrawingState
  saved :: "DrawingState list"
  path :: "canvas_call list"
  painted :: "paint list"

fun exec :: "canvas_call \<Rightarrow> Context \<Rightarrow> Context" where
  "exec Save c = c\<lparr>saved := current c # saved c\<rparr>"
| "exec Restore c =
     (case saved c of [] \<Rightarrow> c | s # rest \<Rightarrow> c\<lparr>current := s, saved := rest\<rparr>)"
| "exec (SetGlobalCompositeOperation v) c =
     c\<lparr>current := (current c)\<lparr>globalCompositeOperation := v\<rparr>\<rparr>"
| "exec (SetFillStyle v) c = c\<lparr>current := (current c)\<lparr>fillStyle := v\<rparr>\<rparr>"
| "exec (SetStrokeStyle v) c = c\<lparr>current := (current c)\<lparr>strokeStyle := v\<rparr>\<rparr>"
| "exec (SetLineWidth v) c = c\<lparr>current := (current c)\<lparr>lineWidth := v\<rparr>\<rparr>"
| "exec (SetFont v) c = c\<lparr>current := (current c)\<lparr>ctxFont := v\<rparr>\<rparr>"
| "exec (SetTextAlign v) c = c\<lparr>current := (current c)\<lparr>textAlign := v\<rparr>\<rparr>"
| "exec (SetTextBaseline v) c = c\<lparr>current := (current c)\<lparr>textBaseline := v\<rparr>\<rparr>"
| "exec (CreateLinearGradient x0 y0 x1 y1) c = c"
| "exec (AddColorStop off col) c = c"
| "exec (FillRect x y w h) c =
     c\<lparr>painted := painted c @
        [FilledRect x y w h (fillStyle (current c)) (globalCompositeOperation (current c))]\<rparr>"
| "exec BeginPath c = c\<lparr>path := []\<rparr>"
| "exec Fill c = c\<lparr>painted := painted c @ [FilledPath (path c) (fillStyle (current c))]\<rparr>"
| "exec Stroke c =
     c\<lparr>painted := painted c @
        [StrokedPath (path c) (strokeStyle (current c)) (lineWidth (current c))]\<rparr>"
| "exec (FillText t x y) c = c\<lparr>painted := painted c @ [FilledText t x y (current c)]\<rparr>"
| "exec call c = c\<lparr>path := path c @ [call]\<rparr>"

fun run :: "canvas_call list \<Rightarrow> Context \<Rightarrow> Context" where
  "run [] c = c"
| "run (call # calls) c = run calls (exec call c)"

section \<open>The canvas helpers\<close>

definition clearRect :: "number \<Rightarrow> number \<Rightarrow> number \<Rightarrow> number \<Rightarrow> string \<Rightarrow> canvas_call list" where
  "clearRect x y w h clearColor =
     [Save,
      SetGlobalCompositeOperation ''copy'',
      SetFillStyle (Color clearColor),
      FillRect x y w h,
      Restore]"

definition changeBorderRadius ::
  "LeftTopRightTopRightBottomLeftBottomRadii \<Rightarrow> number
     \<Rightarrow> LeftTopRightTopRightBottomLeftBottomRadii" where
  "changeBorderRadius borderRadius offset =
     (let f = (\<lambda>x. if x = 0 then x else x + offset)
      in case borderRadius of (r0, r1, r2, r3) \<Rightarrow> (f r0, f r1, f r2, f r3))"

text \<open>The elements of a radii tuple, by index.\<close>

fun radii_list :: "LeftTopRightTopRightBottomLeftBottomRadii \<Rightarrow> number list" where
  "radii_list (r0, r1, r2, r3) = [r0, r1, r2, r3]"

text \<open>
  \<open>drawRoundRect\<close>; its first parameter says whether the context has the native method
  \<open>roundRect\<close>.
\<close>

fun drawRoundRect ::
  "bool \<Rightarrow> number \<Rightarrow> number \<Rightarrow> number \<Rightarrow> number \<Rightarrow> LeftTopRightTopRightBottomLeftBottomRadii
     \<Rightarrow> canvas_call list" where
  "drawRoundRect hasRoundRect x y w h (r0, r1, r2, r3) =
     BeginPath #
     (if hasRoundRect then [RoundRect x y w h (r0, r1, r2, r3)]
      else
        LineTo (x + w - r1) y #
        (if r1 \<noteq> 0 then [ArcTo (x + w) y (x + w) (y + r1) r1] else []) @
        LineTo (x + w) (y + h - r2) #
        (if r2 \<noteq> 0 then [ArcTo (x + w) (y + h) (x + w - r2) (y + h) r2] else []) @
        LineTo (x + r3) (y + h) #
        (if r3 \<noteq> 0 then [ArcTo x (y + h) x (y + h - r3) r3] else []) @
        LineTo x (y + r0) #
        (if r0 \<noteq> 0 then [ArcTo x y (x + r0) y r0] else []))"

definition ADD_BUTTON_SIZE :: number where
  "ADD_BUTTON_SIZE = 21"

definition DRAG_HANDLE_SIZE :: number where
  "DRAG_HANDLE_SIZE = 12"

definition drawCloseButton ::
  "number \<Rightarrow> number \<Rightarrow> number \<Rightarrow> string \<Rightarrow> string \<Rightarrow> canvas_call list" where
  "drawCloseButton x y side backgroundColor textColor =
     (let shift = 4
      in [SetFillStyle (Color backgroundColor),
          FillRect x y side side,
          BeginPath,
          MoveTo (x + shift) (y + shift),
          LineTo (x + side - shift) (y + side - shift),
          MoveTo (x + side - shift) (y + shift),
          LineTo (x + shift) (y + side - shift),
          SetStrokeStyle (Color (if truthy textColor then textColor else ''#FFFFFF'')),
          SetLineWidth (3 / 2),
          Stroke])"

definition drawDragHandle ::
  "number \<Rightarrow> number \<Rightarrow> number \<Rightarrow> string \<Rightarrow> string \<Rightarrow> canvas_call list" where
  "drawDragHandle x y side backgroundColor textColor =
     (let shift = 4;
          radius = 1;
          height' = side - shift * 2;
          coords = [(0, 0), (0, height' / 2), (0, height'), (4, 0), (4, height' / 2), (4, height')]
      in [SetFillStyle (Color backgroundColor), BeginPath] @
         concat (map (\<lambda>(c0, c1).
                   [MoveTo (x + shift + c0) (y + shift + c1),
                    Arc (x + shift + c0) (y + shift + c1) radius 0 (Math_PI * 2) True]) coords) @
         [SetFillStyle (Color textColor),
          Fill,
          SetStrokeStyle (Color (if truthy textColor then textColor else ''#FFFFFF'')),
          SetLineWidth 1,
          Stroke])"

text \<open>
  \<open>drawRoundRectWithBorder\<close>. The defaults of its optional parameters are those of the
  source: the callers of the model pass every argument. The last parameter, \<open>iconColor\<close>, is
  not read.
\<close>

definition drawRoundRectWithBorder ::
  "bool \<Rightarrow> number \<Rightarrow> number \<Rightarrow> number \<Rightarrow> number \<Rightarrow> string \<Rightarrow> number
     \<Rightarrow> LeftTopRightTopRightBottomLeftBottomRadii \<Rightarrow> string \<Rightarrow> string \<Rightarrow> bool \<Rightarrow> bool
     \<Rightarrow> string option \<Rightarrow> canvas_call list" where
  "drawRoundRectWithBorder hasRoundRect left top' width' height' backgroundColor borderWidth
       outerBorderRadius borderColor textColor draggable closeButton iconColor' =
     (if borderWidth = 0 \<or> \<not> truthy borderColor \<or> borderColor = backgroundColor
      then [Save] @
           drawRoundRect hasRoundRect left top' width' height' outerBorderRadius @
           [SetFillStyle (Color backgroundColor), Fill, Restore]
      else
        let halfBorderWidth = borderWidth / 2;
            dragHandleSize = (if draggable then DRAG_HANDLE_SIZE else 0);
            radii = changeBorderRadius outerBorderRadius (- halfBorderWidth)
        in [Save] @
           drawRoundRect hasRoundRect (left + halfBorderWidth) (top' + halfBorderWidth)
             (width' - borderWidth) (height' - borderWidth) radii @
           (if backgroundColor \<noteq> ''transparent''
            then
              let offsetRight = (if closeButton then ADD_BUTTON_SIZE + dragHandleSize + 1 else 0);
                  fixedWidth = (if closeButton then width' + dragHandleSize else width');
                  innerRadii = changeBorderRadius outerBorderRadius (- borderWidth)
              in drawRoundRect hasRoundRect (left + borderWidth - offsetRight) (top' + borderWidth)
                   (fixedWidth - borderWidth * 2) (height' - borderWidth * 2) innerRadii @
                 [SetFillStyle (Color backgroundColor), Fill] @
                 (if draggable
                  then drawDragHandle (left + borderWidth - offsetRight) top' height'
                         backgroundColor textColor
                  else []) @
                 (if closeButton
                  then drawCloseButton (left + fixedWidth - height' - offsetRight) top' height'
                         backgroundColor textColor
                  else [])
            else []) @
           (if borderColor \<noteq> ''transparent''
            then [SetLineWidth borderWidth, SetStrokeStyle (Color borderColor), ClosePath, Stroke]
            else []) @
           [Restore])"

definition clearRectWithGradient ::
  "number \<Rightarrow> number \<Rightarrow> number \<Rightarrow> number \<Rightarrow> string \<Rightarrow> string \<Rightarrow> canvas_call list" where
  "clearRectWithGradient x y w h topColor bottomColor =
     [Save,
      SetGlobalCompositeOperation ''copy'',
      CreateLinearGradient 0 0 0 h,
      AddColorStop 0 topColor,
      AddColorStop 1 bottomColor,
      SetFillStyle (LinearGradient 0 0 0 h [(0, topColor), (1, bottomColor)]),
      FillRect x y w h,
      Restore]"

section \<open>The layered drawer\<close>

text \<open>
  The renderer draws the body of a label with the helper it imports from the canvas helpers
  under the name \<open>drawRoundRectWithInnerBorder\<close>. The model of \<open>draw\<close> takes that helper as
  its first parameter; \<open>drawRoundRectWithBorder\<close> above has its parameter list.
\<close>

type_synonym label_body_helper =
  "number \<Rightarrow> number \<Rightarrow> number \<Rightarrow> number \<Rightarrow> string \<Rightarrow> number
     \<Rightarrow> LeftTopRightTopRightBottomLeftBottomRadii \<Rightarrow> string \<Rightarrow> string \<Rightarrow> bool \<Rightarrow> bool
     \<Rightarrow> string option \<Rightarrow> canvas_call list"

text \<open>The closure \<open>drawLabelBody\<close> of \<open>draw\<close>, with the variables it captures.\<close>

definition drawLabelBody ::
  "label_body_helper \<Rightarrow> Geometry \<Rightarrow> string \<Rightarrow> bool \<Rightarrow> bool \<Rightarrow> string option
     \<Rightarrow> string \<Rightarrow> string \<Rightarrow> canvas_call list" where
  "drawLabelBody drawRoundRectWithInnerBorder geom textColor draggable closeButton iconColor'
       labelBackgroundColor labelBorderColor =
     (let gb = bitmap geom
      in if alignRight geom
         then drawRoundRectWithInnerBorder (b_xOutside gb) (b_yTop gb) (b_totalWidth gb)
                (b_totalHeight gb) labelBackgroundColor (b_horzBorder gb)
                (b_radius gb, 0, 0, b_radius gb) labelBorderColor textColor draggable closeButton
                iconColor'
         else drawRoundRectWithInnerBorder (b_xInside gb) (b_yTop gb) (b_totalWidth gb)
                (b_totalHeight gb) labelBackgroundColor (b_horzBorder gb)
                (0, b_radius gb, b_radius gb, 0) labelBorderColor textColor draggable closeButton
                iconColor')"

text \<open>The icon glyph \<open>U+E966\<close>, in UTF-8.\<close>

definition icon_glyph :: string where
  "icon_glyph = [CHR 0xEE, CHR 0xA5, CHR 0xA6]"

text \<open>
  What a call of \<open>draw\<close> leaves behind: the renderer (its field \<open>_iconColor\<close> is assigned),
  the calls issued on the context of the bitmap coordinate space and those issued on the context
  of the media coordinate space. The rendering target is a collaborator: what it does to the
  context around the two callbacks is not part of \<open>draw\<close>.
\<close>

record DrawResult =
  rendererAfter :: PriceAxisViewRenderer
  bitmapCalls :: "canvas_call list"
  mediaCalls :: "canvas_call list"

definition draw ::
  "label_body_helper \<Rightarrow> PriceAxisViewRenderer \<Rightarrow> BitmapCoordinatesRenderingScope
     \<Rightarrow> PriceAxisViewRendererOptions \<Rightarrow> TextWidthCache \<Rightarrow> Align \<Rightarrow> bool \<Rightarrow> bool
     \<Rightarrow> string option \<Rightarrow> DrawResult" where
  "draw drawRoundRectWithInnerBorder this scope rendererOptions textWidthCache align draggable
       closeButton iconColor' =
     (if \<not> visible (data this) \<or> length (labelText (data this)) = 0
      then \<lparr> rendererAfter = this, bitmapCalls = [], mediaCalls = [] \<rparr>
      else
        let this' = this\<lparr>iconColor := iconColor'\<rparr>;
            textColor = color (data this');
            backgroundColor = background (commonData this');
            geom = calculateGeometry this' (scope\<lparr>contextFont := font rendererOptions\<rparr>)
                     rendererOptions textWidthCache align closeButton;
            gb = bitmap geom;
            body = drawLabelBody drawRoundRectWithInnerBorder geom textColor draggable
                     closeButton iconColor';
            gm = media geom;
            xOffset =
              (if moveTextToInvisibleTick (data this') \<and> closeButton
               then m_xText gm - CLOSE_BUTTON_SIZE - ADD_BUTTON_SIZE else m_xText gm);
            yText = (m_yTop gm + m_yBottom gm) / 2 + m_textMidCorrection gm - 1
        in \<lparr> rendererAfter = this',
             bitmapCalls =
               [SetFont (font rendererOptions)] @
               body backgroundColor ''transparent'' @
               (if tickVisible (data this')
                then [SetFillStyle (Color textColor),
                      FillRect (b_xInside gb) (b_yMid gb) (b_xTick gb - b_xInside gb)
                        (b_tickHeight gb)]
                else []) @
               body ''transparent'' backgroundColor @
               (if borderVisible (data this')
                then [SetFillStyle (Color (paneBackgroundColor rendererOptions)),
                      FillRect (if alignRight geom then b_right gb - b_horzBorder gb else 0)
                        (b_yTop gb) (b_horzBorder gb) (b_yBottom gb - b_yTop gb)]
                else []),
             mediaCalls =
               (case iconColor' of
                  Some ic \<Rightarrow>
                    if truthy ic
                    then [SetFont ''13px icomoon'',
                          SetTextAlign ''left'',
                          SetTextBaseline ''middle'',
                          SetFillStyle (Color ic),
                          FillText icon_glyph (xOffset - ICON_SIZE) yText]
                    else [SetFont (font rendererOptions),
                          SetTextAlign (if alignRight geom then ''right'' else ''left''),
                          SetTextBaseline ''middle'',
                          SetFillStyle (Color textColor),
                          FillText (labelText (data this')) xOffset yText]
                | None \<Rightarrow>
                    [SetFont (font rendererOptions),
                     SetTextAlign (if alignRight geom then ''right'' else ''left''),
                     SetTextBaseline ''middle'',
                     SetFillStyle (Color textColor),
                     FillText (labelText (data this')) xOffset yText]) \<rparr>)"

section \<open>Concrete inputs\<close>

definition example_options :: PriceAxisViewRendererOptions where
  "example_options =
     \<lparr> font = ''12px sans-serif'', fontSize = 12, paddingTop = 2, paddingBottom = 2,
       paddingInner = 3, paddingOuter = 4, tickLength = 5, borderSize = 1,
       paneBackgroundColor = ''#FFFFFF'' \<rparr>"

definition example_data :: PriceAxisViewRendererData where
  "example_data =
     \<lparr> visible = True, labelText = ''42.00'', color = ''#EEEEEE'', tickVisible = True,
       borderVisible = True, separatorVisible = True, moveTextToInvisibleTick = False \<rparr>"

definition example_commonData :: PriceAxisViewRendererCommonData where
  "example_commonData =
     \<lparr> background = ''#2196F3'', coordinate = 100, fixedCoordinate = None,
       additionalPaddingTop = 0, additionalPaddingBottom = 0 \<rparr>"

definition example_renderer :: PriceAxisViewRenderer where
  "example_renderer =
     \<lparr> data = example_data, commonData = example_commonData, iconColor = None \<rparr>"

text \<open>The example label with an additional top padding of \<open>-19\<close>: its logical total height is \<open>-3\<close>.\<close>

definition negative_height_renderer :: PriceAxisViewRenderer where
  "negative_height_renderer =
     example_renderer\<lparr>commonData := example_commonData\<lparr>additionalPaddingTop := - 19\<rparr>\<rparr>"

text \<open>The example label with an additional top padding of 3.\<close>

definition stacked_renderer :: PriceAxisViewRenderer where
  "stacked_renderer =
     example_renderer\<lparr>commonData := example_commonData\<lparr>additionalPaddingTop := 3\<rparr>\<rparr>"

text \<open>The example label with a fixed coordinate of 50.\<close>

definition fixed_renderer :: PriceAxisViewRenderer where
  "fixed_renderer =
     example_renderer\<lparr>commonData := example_commonData\<lparr>fixedCoordinate := Some 50\<rparr>\<rparr>"

text \<open>The example label with an empty text.\<close>

definition empty_text_renderer :: PriceAxisViewRenderer where
  "empty_text_renderer =
     example_renderer\<lparr>data := example_data\<lparr>labelText := []\<rparr>\<rparr>"

text \<open>The example label, not visible.\<close>

definition invisible_renderer :: PriceAxisViewRenderer where
  "invisible_renderer =
     example_renderer\<lparr>data := example_data\<lparr>visible := False\<rparr>\<rparr>"

text \<open>The example label without tick, with \<open>separatorVisible\<close> set and \<open>borderVisible\<close> not.\<close>

definition separator_only_renderer :: PriceAxisViewRenderer where
  "separator_only_renderer =
     example_renderer\<lparr>data := example_data\<lparr>borderVisible := False, tickVisible := False\<rparr>\<rparr>"

text \<open>The example label without tick, with \<open>borderVisible\<close> set and \<open>separatorVisible\<close> not.\<close>

definition border_only_renderer :: PriceAxisViewRenderer where
  "border_only_renderer =
     example_renderer\<lparr>data := example_data\<lparr>separatorVisible := False, tickVisible := False\<rparr>\<rparr>"

text \<open>A text width cache that measures six and a half pixels a character.\<close>

definition example_cache :: TextWidthCache where
  "example_cache =
     \<lparr> measureText = (\<lambda>f s. 13 / 2 * of_nat (length s)), yMidCorrection = (\<lambda>f s. 0) \<rparr>"

text \<open>A scope of 60 by 400 media pixels, of horizontal ratio 2 and vertical ratio \<open>r\<close>.\<close>

definition example_scope :: "number \<Rightarrow> BitmapCoordinatesRenderingScope" where
  "example_scope r =
     \<lparr> contextFont = ''12px sans-serif'',
       bitmapSize = \<lparr> width = 120, height = 400 * r \<rparr>,
       mediaSize = \<lparr> width = 60, height = 400 \<rparr>,
       horizontalPixelRatio = 2, verticalPixelRatio = r \<rparr>"

text \<open>A context in the initial state of the Canvas API.\<close>

definition initial_context :: Context where
  "initial_context =
     \<lparr> current = \<lparr> fillStyle = Color ''#000000'', strokeStyle = Color ''#000000'',
                   lineWidth = 1, globalCompositeOperation = ''source-over'',
                   ctxFont = ''10px sans-serif'', textAlign = ''start'',
                   textBaseline = ''alphabetic'' \<rparr>,
       saved = [], path = [], painted = [] \<rparr>"

text \<open>
  The corner of the rectangle \<open>(x, y, w, h)\<close> that the radius of index \<open>i\<close> rounds: left
  top, right top, right bottom, left bottom.
\<close>

fun rect_corner :: "number \<Rightarrow> number \<Rightarrow> number \<Rightarrow> number \<Rightarrow> nat \<Rightarrow> number \<times> number" where
  "rect_corner x y w h i =
     (if i = 0 then (x, y) else if i = 1 then (x + w, y)
      else if i = 2 then (x + w, y + h) else (x, y + h))"

text \<open>
  The part of the path that \<open>drawRoundRect\<close> builds from lines and arcs for the corner of
  index \<open>i\<close>: the line towards the corner, and the arc around it when its radius is not 0.
\<close>

fun cornerPath ::
  "number \<Rightarrow> number \<Rightarrow> number \<Rightarrow> number \<Rightarrow> LeftTopRightTopRightBottomLeftBottomRadii \<Rightarrow> nat
     \<Rightarrow> canvas_call list" where
  "cornerPath x y w h (r0, r1, r2, r3) i =
     (if i = 0
      then LineTo x (y + r0) # (if r0 \<noteq> 0 then [ArcTo x y (x + r0) y r0] else [])
      else if i = 1
      then LineTo (x + w - r1) y # (if r1 \<noteq> 0 then [ArcTo (x + w) y (x + w) (y + r1) r1] else [])
      else if i = 2
      then LineTo (x + w) (y + h - r2) #
           (if r2 \<noteq> 0 then [ArcTo (x + w) (y + h) (x + w - r2) (y + h) r2] else [])
      else LineTo (x + r3) (y + h) # (if r3 \<noteq> 0 then [ArcTo x (y + h) x (y + h - r3) r3] else []))"

text \<open>
  The geometry that \<open>draw\<close> computes: the renderer has the icon color of the call and the
  context has the font of the options.
\<close>

abbreviation drawGeometry ::
  "PriceAxisViewRenderer \<Rightarrow> BitmapCoordinatesRenderingScope \<Rightarrow> PriceAxisViewRendererOptions
     \<Rightarrow> TextWidthCache \<Rightarrow> Align \<Rightarrow> bool \<Rightarrow> string option \<Rightarrow> Geometry" where
  "drawGeometry this scope rendererOptions textWidthCache align closeButton iconColor' \<equiv>
     calculateGeometry (this\<lparr>iconColor := iconColor'\<rparr>)
       (scope\<lparr>contextFont := font rendererOptions\<rparr>) rendererOptions textWidthCache align
       closeButton"

section \<open>Facts about the numbers\<close>

lemmas example_defs = example_options_def example_data_def example_commonData_def
  example_renderer_def example_cache_def example_scope_def
  negative_height_renderer_def stacked_renderer_def fixed_renderer_def empty_text_renderer_def
  invisible_renderer_def separator_only_renderer_def border_only_renderer_def

lemmas number_defs = Math_round_def Math_floor_def Math_ceil_def Math_max_def js_rem_def
  js_trunc_def truthy_opt_def truthy_def

lemmas geometry_defs = calculateGeometry_def Let_def tickSize_def horzBorder_def textWidth_def
  totalHeight_def totalWidth_def tickHeightBitmap_def totalHeightBitmap_def adjustParity_def
  CLOSE_BUTTON_SIZE_def ICON_SIZE_def

lemma Math_round_int: "Math_round x = of_int (round x)"
  by (simp add: Math_round_def round_def)

lemma js_rem_nonneg:
  assumes "0 \<le> n"
  shows "js_rem (of_int n) 2 = of_int (n mod 2)"
proof -
  have "\<lfloor>(of_int n :: real) / 2\<rfloor> = n div 2"
    using floor_divide_of_int_eq [of n 2, where ?'a = real] by simp
  then have "js_trunc (of_int n / 2) = n div 2"
    using assms by (simp add: js_trunc_def)
  then have "js_rem (of_int n) 2 = of_int n - 2 * of_int (n div 2)"
    by (simp add: js_rem_def)
  also have "\<dots> = of_int (n - 2 * (n div 2))" by simp
  also have "n - 2 * (n div 2) = n mod 2" by (simp add: minus_mult_div_eq_mod)
  finally show ?thesis .
qed

lemma tickHeightBitmap_int: "tickHeightBitmap r = of_int (max 1 \<lfloor>r\<rfloor>)"
  by (simp add: tickHeightBitmap_def Math_max_def Math_floor_def max_def) linarith

lemma parity_differs:
  "0 \<le> n \<Longrightarrow> 0 \<le> k \<Longrightarrow>
     (js_rem (of_int n) 2 \<noteq> js_rem (of_int k) 2) = (even n \<noteq> even k)"
  by (simp add: js_rem_nonneg) presburger

lemma totalHeightBitmap_int:
  assumes "0 \<le> round (h * r)"
  shows "totalHeightBitmap h r =
           of_int (if even (round (h * r)) \<noteq> even (max 1 \<lfloor>r\<rfloor>)
                   then round (h * r) + 1 else round (h * r))"
  using assms unfolding totalHeightBitmap_def adjustParity_def Math_round_int tickHeightBitmap_int
  by (simp add: parity_differs)

lemma adjustParity_int:
  assumes "0 \<le> m" and "0 \<le> k"
  shows "adjustParity (of_int m) (of_int k) = of_int (if even m \<noteq> even k then m + 1 else m)"
  using assms unfolding adjustParity_def by (simp add: parity_differs)

lemma bitmap_totalHeight:
  "b_totalHeight (bitmap (calculateGeometry this scope opts cache align closeButton)) =
     totalHeightBitmap (totalHeight this opts) (verticalPixelRatio scope)"
  by (simp add: calculateGeometry_def Let_def)

lemma bitmap_tickHeight:
  "b_tickHeight (bitmap (calculateGeometry this scope opts cache align closeButton)) =
     tickHeightBitmap (verticalPixelRatio scope)"
  by (simp add: calculateGeometry_def Let_def)

section \<open>The geometry engine: parity of the heights\<close>

text \<open>
  Claim C1. For every label (its logical total height, the font size plus the paddings, is not
  negative) and every vertical pixel ratio of at least 1, the total height and the tick height
  of the bitmap group are integers of the same parity; the tick height is
  \<open>max(1, floor(r))\<close>, and the total height is the rounded product of the logical total
  height and the ratio, plus 1 exactly when the parity of that rounded product differs from the
  parity of the tick height. The parity step itself gives a height of the parity of the tick
  height for every rounded height that is not negative, whatever the rounding of the product
  was. At ratio 1.5 the tick height is 1 and the even rounded height 24 becomes 25.
\<close>

theorem parity_invariant:
  assumes r: "1 \<le> verticalPixelRatio scope"
    and h: "0 \<le> totalHeight this opts"
  shows "\<exists>n k. b_totalHeight (bitmap (calculateGeometry this scope opts cache align closeButton)) = of_int n
           \<and> b_tickHeight (bitmap (calculateGeometry this scope opts cache align closeButton)) = of_int k
           \<and> k = max 1 \<lfloor>verticalPixelRatio scope\<rfloor>
           \<and> (even n \<longleftrightarrow> even k)
           \<and> n = (if even (round (totalHeight this opts * verticalPixelRatio scope)) \<noteq> even k
                   then round (totalHeight this opts * verticalPixelRatio scope) + 1
                   else round (totalHeight this opts * verticalPixelRatio scope))
           \<and> (\<forall>m\<ge>0. \<exists>n'. adjustParity (of_int m) (of_int k) = of_int n'
                  \<and> (even n' \<longleftrightarrow> even k)
                  \<and> n' = (if even m \<noteq> even k then m + 1 else m))"
proof -
  let ?rounded = "round (totalHeight this opts * verticalPixelRatio scope)"
  let ?k = "max 1 \<lfloor>verticalPixelRatio scope\<rfloor>"
  let ?n = "if even ?rounded \<noteq> even ?k then ?rounded + 1 else ?rounded"
  have "0 \<le> totalHeight this opts * verticalPixelRatio scope"
    using r h by simp
  then have "round (0::real) \<le> ?rounded"
    by (rule round_mono)
  then have nonneg: "0 \<le> ?rounded" by simp
  have "b_totalHeight (bitmap (calculateGeometry this scope opts cache align closeButton)) = of_int ?n"
    unfolding bitmap_totalHeight using totalHeightBitmap_int [OF nonneg] .
  moreover have "b_tickHeight (bitmap (calculateGeometry this scope opts cache align closeButton)) = of_int ?k"
    unfolding bitmap_tickHeight by (rule tickHeightBitmap_int)
  moreover have "even ?n \<longleftrightarrow> even ?k" by simp
  moreover have "\<forall>m\<ge>0. \<exists>n'. adjustParity (of_int m) (of_int ?k) = of_int n'
                  \<and> (even n' \<longleftrightarrow> even ?k)
                  \<and> n' = (if even m \<noteq> even ?k then m + 1 else m)"
  proof (intro allI impI)
    fix m :: int
    assume m: "0 \<le> m"
    have k: "0 \<le> ?k" by simp
    have "adjustParity (of_int m) (of_int ?k) = of_int (if even m \<noteq> even ?k then m + 1 else m)"
      using adjustParity_int [OF m k] .
    moreover have "even (if even m \<noteq> even ?k then m + 1 else m) \<longleftrightarrow> even ?k" by simp
    ultimately show "\<exists>n'. adjustParity (of_int m) (of_int ?k) = of_int n'
                  \<and> (even n' \<longleftrightarrow> even ?k)
                  \<and> n' = (if even m \<noteq> even ?k then m + 1 else m)" by blast
  qed
  ultimately show ?thesis by blast
qed

theorem parity_invariant_witness:
  "1 \<le> verticalPixelRatio (example_scope (3 / 2))
   \<and> 0 \<le> totalHeight example_renderer example_options
   \<and> round (totalHeight example_renderer example_options * verticalPixelRatio (example_scope (3 / 2))) = 24
   \<and> b_tickHeight (bitmap (calculateGeometry example_renderer (example_scope (3 / 2)) example_options example_cache AlignRight False)) = 1
   \<and> b_totalHeight (bitmap (calculateGeometry example_renderer (example_scope (3 / 2)) example_options example_cache AlignRight False)) = 25
   \<and> adjustParity 44 1 = 45"
proof -
  have r: "1 \<le> verticalPixelRatio (example_scope (3 / 2))"
    by (simp add: example_defs)
  have h: "0 \<le> totalHeight example_renderer example_options"
    by (simp add: example_defs totalHeight_def)
  have v: "round (totalHeight example_renderer example_options * verticalPixelRatio (example_scope (3 / 2))) = 24"
    by (simp add: example_defs totalHeight_def round_def)
  have f: "max 1 \<lfloor>verticalPixelRatio (example_scope (3 / 2))\<rfloor> = 1"
    by (simp add: example_defs)
  from parity_invariant [OF r h, of example_cache AlignRight False]
  obtain n k where nk:
    "b_totalHeight (bitmap (calculateGeometry example_renderer (example_scope (3 / 2)) example_options example_cache AlignRight False)) = of_int n"
    "b_tickHeight (bitmap (calculateGeometry example_renderer (example_scope (3 / 2)) example_options example_cache AlignRight False)) = of_int k"
    "k = 1" "n = 25"
    "\<forall>m\<ge>0. \<exists>n'. adjustParity (of_int m) (of_int k) = of_int n'
         \<and> (even n' \<longleftrightarrow> even k) \<and> n' = (if even m \<noteq> even k then m + 1 else m)"
    unfolding v f by auto
  from nk(5) [rule_format, of 44] obtain n' where
    "adjustParity (of_int 44) (of_int k) = of_int n'"
    "n' = (if even (44::int) \<noteq> even k then 44 + 1 else 44)"
    by auto
  then have "adjustParity 44 1 = 45" unfolding nk(3) by simp
  then show ?thesis using r h v nk by simp
qed

text \<open>
  The hypothesis on the height is used: the remainder \<open>%\<close> has the sign of the dividend,
  so the parity step compares \<open>-1\<close> with \<open>1\<close> on a negative odd height and an odd tick
  height, and adds 1 to a height whose parity was the one of the tick height.
\<close>

lemma adjustParity_negative: "adjustParity (- 3) 1 = - 2"
  by (simp add: adjustParity_def js_rem_def js_trunc_def)

section \<open>The geometry engine: vertical placement\<close>

text \<open>
  Claim C5. The vertical center of the bitmap group is the anchor (\<open>fixedCoordinate\<close> when
  present, \<open>coordinate\<close> otherwise) times the vertical ratio, rounded, minus the floor of half
  the vertical ratio; the top is the floor of center plus half the tick height minus half the
  total height, and the bottom is the top plus the total height.
\<close>

theorem vertical_placement:
  "b_yMid (bitmap (calculateGeometry this scope opts cache align closeButton)) =
     of_int (round ((case fixedCoordinate (commonData this) of
                       Some c \<Rightarrow> c | None \<Rightarrow> coordinate (commonData this))
                    * verticalPixelRatio scope))
       - of_int \<lfloor>verticalPixelRatio scope * (1 / 2)\<rfloor>
   \<and> b_yTop (bitmap (calculateGeometry this scope opts cache align closeButton)) =
     of_int \<lfloor>b_yMid (bitmap (calculateGeometry this scope opts cache align closeButton))
              + b_tickHeight (bitmap (calculateGeometry this scope opts cache align closeButton)) / 2
              - b_totalHeight (bitmap (calculateGeometry this scope opts cache align closeButton)) / 2\<rfloor>
   \<and> b_yBottom (bitmap (calculateGeometry this scope opts cache align closeButton)) =
     b_yTop (bitmap (calculateGeometry this scope opts cache align closeButton))
       + b_totalHeight (bitmap (calculateGeometry this scope opts cache align closeButton))"
  by (simp add: calculateGeometry_def Let_def Math_round_int Math_floor_def)

theorem vertical_placement_witness:
  "b_yMid (bitmap (calculateGeometry fixed_renderer
      (example_scope (3 / 2)) example_options example_cache AlignRight False)) = 75
   \<and> b_yTop (bitmap (calculateGeometry fixed_renderer
      (example_scope (3 / 2)) example_options example_cache AlignRight False)) = 63
   \<and> b_yBottom (bitmap (calculateGeometry fixed_renderer
      (example_scope (3 / 2)) example_options example_cache AlignRight False)) = 88"
proof -
  let ?g = "bitmap (calculateGeometry fixed_renderer
      (example_scope (3 / 2)) example_options example_cache AlignRight False)"
  have t: "b_tickHeight ?g = 1" "b_totalHeight ?g = 25"
    by (simp_all add: example_defs geometry_defs number_defs)
  have m: "b_yMid ?g = 75"
    using vertical_placement [of fixed_renderer
      "example_scope (3 / 2)" example_options example_cache AlignRight False]
    by (simp add: example_defs round_def)
  have "b_yTop ?g = 63"
    using vertical_placement [of fixed_renderer
      "example_scope (3 / 2)" example_options example_cache AlignRight False]
    unfolding m t by simp
  moreover have "b_yBottom ?g = b_yTop ?g + b_totalHeight ?g"
    using vertical_placement [of fixed_renderer
      "example_scope (3 / 2)" example_options example_cache AlignRight False] by blast
  ultimately show ?thesis using m t by simp
qed

section \<open>The geometry engine: logical width and height\<close>

text \<open>
  Claim C6. The logical total width is the border size plus the inner and the outer padding
  plus the content width plus the effective tick length plus the width of the close button
  (16) when one is requested. The effective tick length is the configured tick length when
  \<open>tickVisible\<close> is set or \<open>moveTextToInvisibleTick\<close> is not, and 0 otherwise; the content
  width is the icon width (13) when the renderer has an icon color, and the measured width of
  the text rounded up otherwise. The total width of the bitmap group is that width times the
  horizontal ratio, rounded.
\<close>

theorem total_width:
  "totalWidth this opts cache (contextFont scope) closeButton =
     borderSize opts + paddingInner opts + paddingOuter opts
       + (if truthy_opt (iconColor this) then 13
          else of_int \<lceil>measureText cache (contextFont scope) (labelText (data this))\<rceil>)
       + (if tickVisible (data this) \<or> \<not> moveTextToInvisibleTick (data this)
          then tickLength opts else 0)
       + (if closeButton then 16 else 0)
   \<and> b_totalWidth (bitmap (calculateGeometry this scope opts cache align closeButton)) =
     of_int (round (totalWidth this opts cache (contextFont scope) closeButton
                    * horizontalPixelRatio scope))"
  by (simp add: calculateGeometry_def Let_def Math_round_int totalWidth_def textWidth_def
      tickSize_def Math_ceil_def CLOSE_BUTTON_SIZE_def ICON_SIZE_def)

theorem total_width_witness:
  "totalWidth example_renderer example_options example_cache
      (contextFont (example_scope 2)) True = 62
   \<and> b_totalWidth (bitmap (calculateGeometry example_renderer (example_scope 2) example_options
        example_cache AlignLeft True)) = 124"
proof -
  have w: "totalWidth example_renderer example_options example_cache
      (contextFont (example_scope 2)) True = 62"
    using total_width [of example_renderer example_options example_cache "example_scope 2" True
        AlignLeft]
    by (simp add: example_defs truthy_opt_def)
  have "b_totalWidth (bitmap (calculateGeometry example_renderer (example_scope 2) example_options
        example_cache AlignLeft True)) = 124"
    using total_width [of example_renderer example_options example_cache "example_scope 2" True
        AlignLeft]
    unfolding w by (simp add: example_defs)
  with w show ?thesis by simp
qed

text \<open>
  Claim C7, as the code has it. The logical total height is the font size plus the top and the
  bottom padding, each with the additional padding of the common data. For a visible label
  \<open>height\<close> reports the font size plus the two paddings of the options, without the
  additional paddings: it is the logical total height when the additional paddings add up to 0.
  With font size 12, paddings 2 and 2, no additional padding and vertical ratio 2, \<open>height\<close>
  reports 16, the total height of the bitmap group is 32 and its tick height is 2.
\<close>

theorem total_height:
  "totalHeight this opts =
     fontSize opts + (paddingTop opts + additionalPaddingTop (commonData this))
       + (paddingBottom opts + additionalPaddingBottom (commonData this))
   \<and> (visible (data this) \<longrightarrow>
        renderer_height this opts useSecondLine = fontSize opts + paddingTop opts + paddingBottom opts)
   \<and> (visible (data this)
        \<and> additionalPaddingTop (commonData this) + additionalPaddingBottom (commonData this) = 0 \<longrightarrow>
        renderer_height this opts useSecondLine = totalHeight this opts)
   \<and> (visible (data this) \<and> fontSize opts = 12 \<and> paddingTop opts = 2 \<and> paddingBottom opts = 2
        \<and> additionalPaddingTop (commonData this) = 0 \<and> additionalPaddingBottom (commonData this) = 0
        \<and> verticalPixelRatio scope = 2 \<longrightarrow>
        renderer_height this opts useSecondLine = 16
        \<and> b_totalHeight (bitmap (calculateGeometry this scope opts cache align closeButton)) = 32
        \<and> b_tickHeight (bitmap (calculateGeometry this scope opts cache align closeButton)) = 2)"
  by (simp add: totalHeight_def Let_def renderer_height_def bitmap_totalHeight bitmap_tickHeight
      totalHeightBitmap_def adjustParity_def tickHeightBitmap_def number_defs)

theorem total_height_witness:
  "visible (data example_renderer)
   \<and> totalHeight example_renderer example_options = 16
   \<and> renderer_height example_renderer example_options False = 16
   \<and> b_totalHeight (bitmap (calculateGeometry example_renderer (example_scope 2) example_options
        example_cache AlignLeft False)) = 32
   \<and> b_tickHeight (bitmap (calculateGeometry example_renderer (example_scope 2) example_options
        example_cache AlignLeft False)) = 2"
  using total_height [of example_renderer example_options False "example_scope 2" example_cache
      AlignLeft False]
  by (simp add: example_defs)

text \<open>
  With an additional top padding of 3 the logical total height of the geometry is 19, and
  \<open>height\<close> reports 16.
\<close>

theorem total_height_counterexample:
  "visible (data stacked_renderer)
   \<and> totalHeight stacked_renderer example_options = 19
   \<and> renderer_height stacked_renderer example_options False = 16"
  by (simp add: example_defs totalHeight_def renderer_height_def)

section \<open>The geometry engine: the media group\<close>

text \<open>
  Claim C8, as the code has it. With a vertical ratio other than 0, the top and the bottom of
  the media group are the top and the bottom of the bitmap group divided by the vertical ratio.
  The text offset is not derived from a bitmap value: it is computed from the logical values,
  the media width minus the separator thickness, the tick length, the inner padding and the
  separator thickness once more for a label aligned right, and the separator thickness plus the
  tick length plus the inner padding for a label aligned left.
\<close>

theorem media_fields:
  assumes "verticalPixelRatio scope \<noteq> 0"
  shows "m_yTop (media (calculateGeometry this scope opts cache align closeButton)) =
           b_yTop (bitmap (calculateGeometry this scope opts cache align closeButton))
             / verticalPixelRatio scope
   \<and> m_yBottom (media (calculateGeometry this scope opts cache align closeButton)) =
           b_yBottom (bitmap (calculateGeometry this scope opts cache align closeButton))
             / verticalPixelRatio scope
   \<and> m_xText (media (calculateGeometry this scope opts cache align closeButton)) =
       (if align = AlignRight
        then width (mediaSize scope) - horzBorder this opts - tickSize this opts
               - paddingInner opts - horzBorder this opts
        else horzBorder this opts + tickSize this opts + paddingInner opts)"
  by (simp add: calculateGeometry_def Let_def)

theorem media_fields_witness:
  "verticalPixelRatio (example_scope (3 / 2)) \<noteq> 0
   \<and> b_yBottom (bitmap (calculateGeometry example_renderer (example_scope (3 / 2)) example_options
        example_cache AlignRight False)) = 163
   \<and> m_yBottom (media (calculateGeometry example_renderer (example_scope (3 / 2)) example_options
        example_cache AlignRight False)) = 326 / 3
   \<and> m_xText (media (calculateGeometry example_renderer (example_scope (3 / 2)) example_options
        example_cache AlignRight False)) = 50"
proof -
  have r: "verticalPixelRatio (example_scope (3 / 2)) \<noteq> 0"
    by (simp add: example_defs)
  have b: "b_yBottom (bitmap (calculateGeometry example_renderer (example_scope (3 / 2))
        example_options example_cache AlignRight False)) = 163"
    by (simp add: example_defs geometry_defs number_defs)
  show ?thesis
    using r media_fields [OF r, of example_renderer example_options example_cache AlignRight False]
    unfolding b by (simp add: example_defs horzBorder_def tickSize_def)
qed

text \<open>
  At vertical ratio 2 the text offset of the example label is 9, and no field of the bitmap
  group divided by the ratio is 9.
\<close>

theorem media_fields_counterexample:
  "bitmap (calculateGeometry example_renderer (example_scope 2) example_options example_cache
      AlignLeft False) =
     \<lparr> b_yTop = 184, b_yMid = 199, b_yBottom = 216, b_totalWidth = 92, b_totalHeight = 32,
       b_radius = 4, b_horzBorder = 2, b_xOutside = 94, b_xInside = 2, b_xTick = 12,
       b_tickHeight = 2, b_right = 120 \<rparr>
   \<and> m_xText (media (calculateGeometry example_renderer (example_scope 2) example_options
        example_cache AlignLeft False)) = 9
   \<and> verticalPixelRatio (example_scope 2) = 2
   \<and> (9 :: real) \<notin> set [184 / 2, 199 / 2, 216 / 2, 92 / 2, 32 / 2, 4 / 2, 2 / 2, 94 / 2, 2 / 2,
                          12 / 2, 2 / 2, 120 / 2]"
  by (simp add: example_defs geometry_defs number_defs)

section \<open>The layered drawer: labels that are not drawn\<close>

text \<open>
  Claim C2, as the code has it. For a label that is not visible or whose text is empty (with an
  icon color or without), \<open>draw\<close> issues no call on either context and leaves the renderer as
  it is. \<open>height\<close> reports 0 for a label that is not visible; for a visible label it reports
  the font size plus the two paddings, also when the text is empty.
\<close>

theorem draw_skipped:
  "(\<not> visible (data this) \<or> labelText (data this) = [] \<longrightarrow>
      bitmapCalls (draw helper this scope opts cache align draggable closeButton ic) = []
      \<and> mediaCalls (draw helper this scope opts cache align draggable closeButton ic) = []
      \<and> rendererAfter (draw helper this scope opts cache align draggable closeButton ic) = this)
   \<and> (\<not> visible (data this) \<longrightarrow> renderer_height this opts useSecondLine = 0)
   \<and> (visible (data this) \<longrightarrow>
        renderer_height this opts useSecondLine = fontSize opts + paddingTop opts + paddingBottom opts)"
  by (simp add: draw_def renderer_height_def)

theorem draw_skipped_witness:
  "labelText (data empty_text_renderer) = []
   \<and> bitmapCalls (draw (drawRoundRectWithBorder True) empty_text_renderer
        (example_scope 2) example_options example_cache AlignRight False False None) = []
   \<and> mediaCalls (draw (drawRoundRectWithBorder True) empty_text_renderer
        (example_scope 2) example_options example_cache AlignRight False False None) = []
   \<and> \<not> visible (data invisible_renderer)
   \<and> renderer_height invisible_renderer example_options False = 0"
  using draw_skipped [of empty_text_renderer
      "drawRoundRectWithBorder True" "example_scope 2" example_options example_cache AlignRight
      False False None False]
    draw_skipped [of invisible_renderer
      "drawRoundRectWithBorder True" "example_scope 2" example_options example_cache AlignRight
      False False None False]
  by (simp add: example_defs)

text \<open>The height reported for the visible example label with an empty text is 16.\<close>

theorem draw_skipped_counterexample:
  "labelText (data empty_text_renderer) = []
   \<and> iconColor empty_text_renderer = None
   \<and> renderer_height empty_text_renderer example_options False = 16"
  by (simp add: example_defs renderer_height_def)

section \<open>Facts about the drawing surface and the helpers\<close>

lemma run_append: "run (xs @ ys) c = run ys (run xs c)"
  by (induction xs arbitrary: c) simp_all

lemma exec_saved: "call \<noteq> Save \<Longrightarrow> call \<noteq> Restore \<Longrightarrow> saved (exec call c) = saved c"
  by (cases call) simp_all

lemma run_saved:
  "Save \<notin> set calls \<Longrightarrow> Restore \<notin> set calls \<Longrightarrow> saved (run calls c) = saved c"
proof (induction calls arbitrary: c)
  case Nil
  then show ?case by simp
next
  case (Cons call calls)
  then have "saved (run calls (exec call c)) = saved (exec call c)"
    by simp
  also have "\<dots> = saved c"
    using Cons.prems by (intro exec_saved) auto
  finally show ?case by simp
qed

lemma run_bracket:
  assumes "Save \<notin> set body" and "Restore \<notin> set body"
  shows "current (run (Save # body @ [Restore]) c) = current c
         \<and> saved (run (Save # body @ [Restore]) c) = saved c"
proof -
  have "saved (run body (exec Save c)) = current c # saved c"
    using run_saved [OF assms] by simp
  then show ?thesis
    by (simp add: run_append)
qed

lemma drawRoundRect_plain:
  "Save \<notin> set (drawRoundRect rr x y w h r)" "Restore \<notin> set (drawRoundRect rr x y w h r)"
  by (cases r; simp)+

lemma drawCloseButton_plain:
  "Save \<notin> set (drawCloseButton x y side bg tc)" "Restore \<notin> set (drawCloseButton x y side bg tc)"
  by (simp_all add: drawCloseButton_def Let_def)

lemma drawDragHandle_plain:
  "Save \<notin> set (drawDragHandle x y side bg tc)" "Restore \<notin> set (drawDragHandle x y side bg tc)"
  by (simp_all add: drawDragHandle_def Let_def)

lemma drawRoundRectWithBorder_bracket:
  "\<exists>body. drawRoundRectWithBorder rr left top' w h bg bw outer bc tc draggable closeButton ic
            = Save # body @ [Restore]
          \<and> Save \<notin> set body \<and> Restore \<notin> set body"
proof (cases "bw = 0 \<or> \<not> truthy bc \<or> bc = bg")
  case True
  then have "drawRoundRectWithBorder rr left top' w h bg bw outer bc tc draggable closeButton ic
      = Save # (drawRoundRect rr left top' w h outer @ [SetFillStyle (Color bg), Fill]) @ [Restore]"
    by (simp add: drawRoundRectWithBorder_def)
  moreover have "Save \<notin> set (drawRoundRect rr left top' w h outer @ [SetFillStyle (Color bg), Fill])"
    "Restore \<notin> set (drawRoundRect rr left top' w h outer @ [SetFillStyle (Color bg), Fill])"
    by (simp_all add: drawRoundRect_plain)
  ultimately show ?thesis by blast
next
  case False
  let ?dh = "if draggable then DRAG_HANDLE_SIZE else 0"
  let ?off = "if closeButton then ADD_BUTTON_SIZE + ?dh + 1 else 0"
  let ?fw = "if closeButton then w + ?dh else w"
  let ?body = "drawRoundRect rr (left + bw / 2) (top' + bw / 2) (w - bw) (h - bw)
                 (changeBorderRadius outer (- (bw / 2))) @
           (if bg \<noteq> ''transparent''
            then drawRoundRect rr (left + bw - ?off) (top' + bw) (?fw - bw * 2) (h - bw * 2)
                   (changeBorderRadius outer (- bw)) @
                 [SetFillStyle (Color bg), Fill] @
                 (if draggable then drawDragHandle (left + bw - ?off) top' h bg tc else []) @
                 (if closeButton then drawCloseButton (left + ?fw - h - ?off) top' h bg tc else [])
            else []) @
           (if bc \<noteq> ''transparent''
            then [SetLineWidth bw, SetStrokeStyle (Color bc), ClosePath, Stroke]
            else [])"
  from False have "drawRoundRectWithBorder rr left top' w h bg bw outer bc tc draggable closeButton ic
      = Save # ?body @ [Restore]"
    by (simp add: drawRoundRectWithBorder_def Let_def)
  moreover have "Save \<notin> set ?body" "Restore \<notin> set ?body"
    by (simp_all add: drawRoundRect_plain drawCloseButton_plain drawDragHandle_plain)
  ultimately show ?thesis by blast
qed

lemma run_drawRoundRect:
  "run (drawRoundRect rr x y w h r) c = c\<lparr>path := tl (drawRoundRect rr x y w h r)\<rparr>"
  by (cases r) simp

lemma drawRoundRect_marks:
  "Fill \<notin> set (drawRoundRect rr x y w h r)" "Stroke \<notin> set (drawRoundRect rr x y w h r)"
  "ClosePath \<notin> set (drawRoundRect rr x y w h r)"
  "filter isFill (drawRoundRect rr x y w h r) = []"
  by (cases r; simp)+

lemma drawDragHandle_no_close: "ClosePath \<notin> set (drawDragHandle x y side bg tc)"
  by (simp add: drawDragHandle_def Let_def)

lemma drawCloseButton_no_close: "ClosePath \<notin> set (drawCloseButton x y side bg tc)"
  by (simp add: drawCloseButton_def Let_def)

lemma changeBorderRadius_zero:
  "i < 4 \<Longrightarrow> radii_list r ! i = 0 \<Longrightarrow> radii_list (changeBorderRadius r offset) ! i = 0"
  by (cases r) (auto simp add: changeBorderRadius_def Let_def nth_Cons split: nat.splits)

lemma changeBorderRadius_nonzero:
  "length (filter (\<lambda>v. v \<noteq> 0) (radii_list (changeBorderRadius r offset)))
     \<le> length (filter (\<lambda>v. v \<noteq> 0) (radii_list r))"
  by (cases r) (simp add: changeBorderRadius_def Let_def)

lemma drawRoundRect_native:
  "c \<in> set (drawRoundRect True x y w h r) \<Longrightarrow> c = BeginPath \<or> c = RoundRect x y w h r"
  by (cases r) auto

lemma drawRoundRect_arcs:
  "length (filter isArcTo (drawRoundRect False x y w h r))
     = length (filter (\<lambda>v. v \<noteq> 0) (radii_list r))"
  by (cases r) simp

lemma drawDragHandle_shapes:
  "c \<in> set (drawDragHandle x y side bg tc) \<Longrightarrow> c \<noteq> RoundRect x' y' w' h' r'"
  "filter isArcTo (drawDragHandle x y side bg tc) = []"
  by (auto simp add: drawDragHandle_def Let_def)

lemma drawCloseButton_shapes:
  "c \<in> set (drawCloseButton x y side bg tc) \<Longrightarrow> c \<noteq> RoundRect x' y' w' h' r'"
  "filter isArcTo (drawCloseButton x y side bg tc) = []"
  by (auto simp add: drawCloseButton_def Let_def)

lemma native_radii:
  assumes "RoundRect x y w h r
             \<in> set (drawRoundRectWithBorder True left top' w0 h0 bg bw outer bc tc draggable closeButton ic)"
  shows "r = outer \<or> r = changeBorderRadius outer (- (bw / 2)) \<or> r = changeBorderRadius outer (- bw)"
  using assms
  by (auto simp add: drawRoundRectWithBorder_def Let_def split: if_splits
      dest: drawRoundRect_native drawDragHandle_shapes(1) drawCloseButton_shapes(1))

lemma fallback_arcs:
  "length (filter isArcTo
     (drawRoundRectWithBorder False left top' w h bg bw outer bc tc draggable closeButton ic))
   \<le> 2 * length (filter (\<lambda>v. v \<noteq> 0) (radii_list outer))"
proof -
  note le = changeBorderRadius_nonzero [of outer "- (bw / 2)"] changeBorderRadius_nonzero [of outer "- bw"]
  show ?thesis
    using le
    by (simp add: drawRoundRectWithBorder_def Let_def drawRoundRect_arcs drawDragHandle_shapes(2)
        drawCloseButton_shapes(2))
qed

lemma geometry_alignRight:
  "alignRight (calculateGeometry this scope opts cache align closeButton) = (align = AlignRight)"
  by (simp add: calculateGeometry_def Let_def)

lemma geometry_right:
  "b_right (bitmap (calculateGeometry this scope opts cache align closeButton))
     = width (bitmapSize scope)"
  by (simp add: calculateGeometry_def Let_def)

lemma drawRoundRect_no_fillRect: "filter isFillRect (drawRoundRect rr x y w h r) = []"
  by (cases r) simp

lemma drawDragHandle_no_fillRect: "filter isFillRect (drawDragHandle x y side bg tc) = []"
  by (simp add: drawDragHandle_def Let_def)

lemma drawRoundRectWithBorder_no_fillRect:
  "filter isFillRect
     (drawRoundRectWithBorder rr left top' w h bg bw outer bc tc draggable False ic) = []"
  by (simp add: drawRoundRectWithBorder_def Let_def drawRoundRect_no_fillRect
      drawDragHandle_no_fillRect)

lemma draw_fillRects:
  assumes "visible (data this)" and "labelText (data this) \<noteq> []"
  shows "filter isFillRect (bitmapCalls (draw (drawRoundRectWithBorder rr) this scope opts cache
           align draggable False ic))
     = (let gb = bitmap (calculateGeometry (this\<lparr>iconColor := ic\<rparr>)
                   (scope\<lparr>contextFont := font opts\<rparr>) opts cache align False)
        in (if tickVisible (data this)
            then [FillRect (b_xInside gb) (b_yMid gb) (b_xTick gb - b_xInside gb) (b_tickHeight gb)]
            else []) @
           (if borderVisible (data this)
            then [FillRect (if align = AlignRight then b_right gb - b_horzBorder gb else 0)
                    (b_yTop gb) (b_horzBorder gb) (b_yBottom gb - b_yTop gb)]
            else []))"
  using assms unfolding draw_def Let_def
  by (simp add: drawLabelBody_def Let_def drawRoundRectWithBorder_no_fillRect geometry_alignRight)

lemma changeBorderRadius_offset:
  "j < 4 \<Longrightarrow> radii_list r ! j \<noteq> 0 \<Longrightarrow>
     radii_list (changeBorderRadius r offset) ! j = radii_list r ! j + offset"
  by (cases r) (auto simp add: changeBorderRadius_def Let_def nth_Cons split: nat.splits)

lemma drawRoundRect_corners:
  "drawRoundRect False x y w h r =
     BeginPath # cornerPath x y w h r 1 @ cornerPath x y w h r 2 @ cornerPath x y w h r 3
       @ cornerPath x y w h r 0"
  by (cases r) simp

lemma cornerPath_square:
  assumes "i < 4" and "radii_list r ! i = 0"
  shows "cornerPath x y w h r i = [case rect_corner x y w h i of (cx, cy) \<Rightarrow> LineTo cx cy]"
proof -
  obtain r0 r1 r2 r3 where r: "r = (r0, r1, r2, r3)" by (cases r)
  from assms(1) have "i = 0 \<or> i = 1 \<or> i = 2 \<or> i = 3" by arith
  then show ?thesis using assms(2) unfolding r by auto
qed

lemma drawRoundRect_True: "drawRoundRect True x y w h r = [BeginPath, RoundRect x y w h r]"
  by (cases r) simp

lemma drawDragHandle_plain_path:
  "c \<in> set (drawDragHandle x y side bg tc) \<Longrightarrow> \<not> isRoundRect c \<and> \<not> isArcTo c"
  by (auto simp add: drawDragHandle_def Let_def)

lemma drawCloseButton_plain_path:
  "c \<in> set (drawCloseButton x y side bg tc) \<Longrightarrow> \<not> isRoundRect c \<and> \<not> isArcTo c"
  by (auto simp add: drawCloseButton_def Let_def)

lemma drawRoundRectWithBorder_late:
  assumes "\<not> (bw = 0 \<or> bc = [] \<or> bc = bg)"
  shows "\<exists>rest. drawRoundRectWithBorder rr left top' w h bg bw outer bc tc draggable closeButton ic
           = Save #
             drawRoundRect rr (left + bw / 2) (top' + bw / 2) (w - bw) (h - bw)
               (changeBorderRadius outer (- (bw / 2))) @
             (if bg \<noteq> ''transparent''
              then drawRoundRect rr
                     (left + bw - (if closeButton then 21 + (if draggable then 12 else 0) + 1 else 0))
                     (top' + bw)
                     ((if closeButton then w + (if draggable then 12 else 0) else w) - bw * 2)
                     (h - bw * 2) (changeBorderRadius outer (- bw))
              else []) @
             rest
         \<and> (\<forall>c \<in> set rest. \<not> isRoundRect c \<and> \<not> isArcTo c)"
proof -
  let ?dh = "if draggable then DRAG_HANDLE_SIZE else 0"
  let ?off = "if closeButton then ADD_BUTTON_SIZE + ?dh + 1 else 0"
  let ?fw = "if closeButton then w + ?dh else w"
  let ?rest = "(if bg \<noteq> ''transparent''
            then [SetFillStyle (Color bg), Fill] @
                 (if draggable then drawDragHandle (left + bw - ?off) top' h bg tc else []) @
                 (if closeButton then drawCloseButton (left + ?fw - h - ?off) top' h bg tc else [])
            else []) @
           (if bc \<noteq> ''transparent''
            then [SetLineWidth bw, SetStrokeStyle (Color bc), ClosePath, Stroke]
            else []) @ [Restore]"
  have "drawRoundRectWithBorder rr left top' w h bg bw outer bc tc draggable closeButton ic
           = Save #
             drawRoundRect rr (left + bw / 2) (top' + bw / 2) (w - bw) (h - bw)
               (changeBorderRadius outer (- (bw / 2))) @
             (if bg \<noteq> ''transparent''
              then drawRoundRect rr
                     (left + bw - (if closeButton then 21 + (if draggable then 12 else 0) + 1 else 0))
                     (top' + bw)
                     ((if closeButton then w + (if draggable then 12 else 0) else w) - bw * 2)
                     (h - bw * 2) (changeBorderRadius outer (- bw))
              else []) @
             ?rest"
    using assms
    by (simp add: drawRoundRectWithBorder_def Let_def truthy_def DRAG_HANDLE_SIZE_def
        ADD_BUTTON_SIZE_def)
  moreover have "\<forall>c \<in> set ?rest. \<not> isRoundRect c \<and> \<not> isArcTo c"
    by (auto dest: drawDragHandle_plain_path drawCloseButton_plain_path)
  ultimately show ?thesis by blast
qed

lemma geometry_horzBorder:
  "b_horzBorder (bitmap (calculateGeometry this scope opts cache align closeButton))
     = (if separatorVisible (data this) \<and> 0 < borderSize opts
        then of_int (max 1 \<lfloor>borderSize opts * horizontalPixelRatio scope\<rfloor>) else 0)"
  by (simp add: calculateGeometry_def Let_def horzBorder_def Math_max_def Math_floor_def max_def)
    linarith

lemma geometry_span:
  "b_yBottom (bitmap (calculateGeometry this scope opts cache align closeButton))
     - b_yTop (bitmap (calculateGeometry this scope opts cache align closeButton))
     = b_totalHeight (bitmap (calculateGeometry this scope opts cache align closeButton))"
  by (simp add: calculateGeometry_def Let_def)

lemma draw_bitmapCalls:
  assumes "visible (data this)" and "labelText (data this) \<noteq> []"
  shows "bitmapCalls (draw helper this scope opts cache align draggable closeButton ic)
     = SetFont (font opts) #
       drawLabelBody helper (drawGeometry this scope opts cache align closeButton ic)
         (color (data this)) draggable closeButton ic (background (commonData this))
         ''transparent'' @
       (if tickVisible (data this)
        then [SetFillStyle (Color (color (data this))),
              FillRect
                (b_xInside (bitmap (drawGeometry this scope opts cache align closeButton ic)))
                (b_yMid (bitmap (drawGeometry this scope opts cache align closeButton ic)))
                (b_xTick (bitmap (drawGeometry this scope opts cache align closeButton ic))
                 - b_xInside (bitmap (drawGeometry this scope opts cache align closeButton ic)))
                (b_tickHeight (bitmap (drawGeometry this scope opts cache align closeButton ic)))]
        else []) @
       drawLabelBody helper (drawGeometry this scope opts cache align closeButton ic)
         (color (data this)) draggable closeButton ic ''transparent''
         (background (commonData this)) @
       (if borderVisible (data this)
        then [SetFillStyle (Color (paneBackgroundColor opts)),
              FillRect
                (if align = AlignRight
                 then width (bitmapSize scope)
                        - b_horzBorder (bitmap (drawGeometry this scope opts cache align closeButton ic))
                 else 0)
                (b_yTop (bitmap (drawGeometry this scope opts cache align closeButton ic)))
                (b_horzBorder (bitmap (drawGeometry this scope opts cache align closeButton ic)))
                (b_yBottom (bitmap (drawGeometry this scope opts cache align closeButton ic))
                 - b_yTop (bitmap (drawGeometry this scope opts cache align closeButton ic)))]
        else [])"
  using assms unfolding draw_def Let_def
  by (simp add: geometry_alignRight geometry_right)

lemma drawLabelBody_no_fillRect:
  "filter isFillRect
     (drawLabelBody (drawRoundRectWithBorder rr) geom tc draggable False ic bg bc) = []"
  by (simp add: drawLabelBody_def Let_def drawRoundRectWithBorder_no_fillRect)

section \<open>The helpers restore the drawing state\<close>

text \<open>
  Claim C9. Each of \<open>clearRect\<close>, \<open>clearRectWithGradient\<close> and \<open>drawRoundRectWithBorder\<close>
  starts with \<open>save\<close>, ends with \<open>restore\<close> on every path and issues no other \<open>save\<close> or
  \<open>restore\<close> in between; so the drawing state (fill style, stroke style, line width, composite
  mode, font, text alignment and baseline) and the stack of saved states are after the call
  what they were before it.
\<close>

theorem helpers_restore_state:
  "(\<exists>body. clearRect x y w h clearColor = Save # body @ [Restore]
       \<and> Save \<notin> set body \<and> Restore \<notin> set body)
   \<and> current (run (clearRect x y w h clearColor) c) = current c
   \<and> saved (run (clearRect x y w h clearColor) c) = saved c
   \<and> (\<exists>body. clearRectWithGradient x y w h topColor bottomColor = Save # body @ [Restore]
       \<and> Save \<notin> set body \<and> Restore \<notin> set body)
   \<and> current (run (clearRectWithGradient x y w h topColor bottomColor) c) = current c
   \<and> saved (run (clearRectWithGradient x y w h topColor bottomColor) c) = saved c
   \<and> (\<exists>body. drawRoundRectWithBorder rr left top' w h bg bw outer bc tc draggable closeButton ic
                = Save # body @ [Restore]
       \<and> Save \<notin> set body \<and> Restore \<notin> set body)
   \<and> current (run (drawRoundRectWithBorder rr left top' w h bg bw outer bc tc draggable
                      closeButton ic) c) = current c
   \<and> saved (run (drawRoundRectWithBorder rr left top' w h bg bw outer bc tc draggable
                    closeButton ic) c) = saved c"
proof -
  have a: "\<exists>body. clearRect x y w h clearColor = Save # body @ [Restore]
       \<and> Save \<notin> set body \<and> Restore \<notin> set body"
    by (simp add: clearRect_def)
  have b: "\<exists>body. clearRectWithGradient x y w h topColor bottomColor = Save # body @ [Restore]
       \<and> Save \<notin> set body \<and> Restore \<notin> set body"
    by (simp add: clearRectWithGradient_def)
  obtain body where body:
    "drawRoundRectWithBorder rr left top' w h bg bw outer bc tc draggable closeButton ic
       = Save # body @ [Restore]" "Save \<notin> set body" "Restore \<notin> set body"
    using drawRoundRectWithBorder_bracket by blast
  have "current (run (clearRect x y w h clearColor) c) = current c"
    "saved (run (clearRect x y w h clearColor) c) = saved c"
    "current (run (clearRectWithGradient x y w h topColor bottomColor) c) = current c"
    "saved (run (clearRectWithGradient x y w h topColor bottomColor) c) = saved c"
    by (simp_all add: clearRect_def clearRectWithGradient_def)
  moreover have "current (run (drawRoundRectWithBorder rr left top' w h bg bw outer bc tc draggable
                      closeButton ic) c) = current c"
    "saved (run (drawRoundRectWithBorder rr left top' w h bg bw outer bc tc draggable
                      closeButton ic) c) = saved c"
    unfolding body(1) using run_bracket [OF body(2,3)] by simp_all
  ultimately show ?thesis using a b body by blast
qed

theorem helpers_restore_state_witness:
  "current (run (drawRoundRectWithBorder False 0 0 100 20 ''#2196F3'' 2 (4, 0, 0, 4) ''#EEEEEE''
       ''#FFFFFF'' True True None) initial_context) = current initial_context
   \<and> saved (run (drawRoundRectWithBorder False 0 0 100 20 ''#2196F3'' 2 (4, 0, 0, 4) ''#EEEEEE''
       ''#FFFFFF'' True True None) initial_context) = []
   \<and> current (run (clearRect 0 0 100 20 ''#2196F3'') initial_context) = current initial_context
   \<and> current (run (clearRectWithGradient 0 0 100 20 ''#2196F3'' ''#FFFFFF'') initial_context)
       = current initial_context"
  using helpers_restore_state [of 0 0 100 20 "''#2196F3''" initial_context "''#2196F3''"
      "''#FFFFFF''" False 0 0 "''#2196F3''" 2 "(4, 0, 0, 4)" "''#EEEEEE''" "''#FFFFFF''" True True
      None]
  by (simp add: initial_context_def)

section \<open>The fills of a rounded rectangle with a border\<close>

text \<open>
  Claim C3, as the code has it. With a border width of 0, a border color equal to the background
  color or an empty border color, \<open>drawRoundRectWithBorder\<close> builds the outer rounded
  rectangle, fills it once with the background color and neither closes nor strokes a path.
  With the border color \<open>transparent\<close> the statements of the border stroke (the only ones that
  close a path) are not executed; when moreover the border width is not 0, the background is not
  \<open>transparent\<close> and neither a drag handle nor a close button is requested, the single fill
  paints the inner rectangle, inset by the border width, not the outer one.
\<close>

theorem single_fill:
  "(bw = 0 \<or> bc = bg \<or> bc = [] \<longrightarrow>
      drawRoundRectWithBorder rr left top' w h bg bw outer bc tc draggable closeButton ic
        = Save # drawRoundRect rr left top' w h outer @ [SetFillStyle (Color bg), Fill, Restore]
      \<and> length (filter isFill
           (drawRoundRectWithBorder rr left top' w h bg bw outer bc tc draggable closeButton ic)) = 1
      \<and> Stroke \<notin> set (drawRoundRectWithBorder rr left top' w h bg bw outer bc tc draggable
                         closeButton ic)
      \<and> ClosePath \<notin> set (drawRoundRectWithBorder rr left top' w h bg bw outer bc tc draggable
                            closeButton ic)
      \<and> painted (run (drawRoundRectWithBorder rr left top' w h bg bw outer bc tc draggable
                         closeButton ic) c)
          = painted c @ [FilledPath (tl (drawRoundRect rr left top' w h outer)) (Color bg)])
   \<and> (bc = ''transparent'' \<longrightarrow>
        ClosePath \<notin> set (drawRoundRectWithBorder rr left top' w h bg bw outer bc tc draggable
                            closeButton ic))
   \<and> (bc = ''transparent'' \<and> bw \<noteq> 0 \<and> bg \<noteq> ''transparent'' \<and> \<not> draggable \<and> \<not> closeButton \<longrightarrow>
        length (filter isFill
           (drawRoundRectWithBorder rr left top' w h bg bw outer bc tc draggable closeButton ic)) = 1
        \<and> painted (run (drawRoundRectWithBorder rr left top' w h bg bw outer bc tc draggable
                         closeButton ic) c)
          = painted c @
            [FilledPath (tl (drawRoundRect rr (left + bw) (top' + bw) (w - bw * 2) (h - bw * 2)
                               (changeBorderRadius outer (- bw)))) (Color bg)])"
proof (intro conjI impI)
  assume early: "bw = 0 \<or> bc = bg \<or> bc = []"
  then show eq: "drawRoundRectWithBorder rr left top' w h bg bw outer bc tc draggable closeButton ic
        = Save # drawRoundRect rr left top' w h outer @ [SetFillStyle (Color bg), Fill, Restore]"
    by (auto simp add: drawRoundRectWithBorder_def truthy_def)
  show "length (filter isFill
           (drawRoundRectWithBorder rr left top' w h bg bw outer bc tc draggable closeButton ic)) = 1"
    unfolding eq by (simp add: drawRoundRect_marks)
  show "Stroke \<notin> set (drawRoundRectWithBorder rr left top' w h bg bw outer bc tc draggable
                         closeButton ic)"
    unfolding eq by (simp add: drawRoundRect_marks)
  show "ClosePath \<notin> set (drawRoundRectWithBorder rr left top' w h bg bw outer bc tc draggable
                         closeButton ic)"
    unfolding eq by (simp add: drawRoundRect_marks)
  show "painted (run (drawRoundRectWithBorder rr left top' w h bg bw outer bc tc draggable
                         closeButton ic) c)
          = painted c @ [FilledPath (tl (drawRoundRect rr left top' w h outer)) (Color bg)]"
    unfolding eq by (simp add: run_append run_drawRoundRect)
next
  assume "bc = ''transparent''"
  then show "ClosePath \<notin> set (drawRoundRectWithBorder rr left top' w h bg bw outer bc tc draggable
                            closeButton ic)"
    by (simp add: drawRoundRectWithBorder_def Let_def drawRoundRect_marks
        drawDragHandle_no_close drawCloseButton_no_close)
next
  assume a: "bc = ''transparent'' \<and> bw \<noteq> 0 \<and> bg \<noteq> ''transparent'' \<and> \<not> draggable \<and> \<not> closeButton"
  then have eq: "drawRoundRectWithBorder rr left top' w h bg bw outer bc tc draggable closeButton ic
      = Save # drawRoundRect rr (left + bw / 2) (top' + bw / 2) (w - bw) (h - bw)
                 (changeBorderRadius outer (- (bw / 2))) @
        drawRoundRect rr (left + bw) (top' + bw) (w - bw * 2) (h - bw * 2)
                 (changeBorderRadius outer (- bw)) @
        [SetFillStyle (Color bg), Fill, Restore]"
    by (auto simp add: drawRoundRectWithBorder_def Let_def truthy_def)
  show "length (filter isFill
           (drawRoundRectWithBorder rr left top' w h bg bw outer bc tc draggable closeButton ic)) = 1"
    unfolding eq by (simp add: drawRoundRect_marks)
  show "painted (run (drawRoundRectWithBorder rr left top' w h bg bw outer bc tc draggable
                         closeButton ic) c)
          = painted c @
            [FilledPath (tl (drawRoundRect rr (left + bw) (top' + bw) (w - bw * 2) (h - bw * 2)
                               (changeBorderRadius outer (- bw)))) (Color bg)]"
    unfolding eq by (simp add: run_append run_drawRoundRect)
qed

theorem single_fill_witness:
  "painted (run (drawRoundRectWithBorder True 0 0 100 20 ''#2196F3'' 0 (4, 0, 0, 4) ''#EEEEEE''
       ''#FFFFFF'' True True None) initial_context)
     = [FilledPath [RoundRect 0 0 100 20 (4, 0, 0, 4)] (Color ''#2196F3'')]
   \<and> painted (run (drawRoundRectWithBorder True 0 0 100 20 ''#2196F3'' 2 (4, 0, 0, 4)
       ''transparent'' ''#FFFFFF'' False False None) initial_context)
     = [FilledPath [RoundRect 2 2 96 16 (2, 0, 0, 2)] (Color ''#2196F3'')]"
  using single_fill [of 0 "''#EEEEEE''" "''#2196F3''" True 0 0 100 20 "(4, 0, 0, 4)" "''#FFFFFF''"
      True True None initial_context]
    single_fill [of 2 "''transparent''" "''#2196F3''" True 0 0 100 20 "(4, 0, 0, 4)" "''#FFFFFF''"
      False False None initial_context]
  by (simp add: initial_context_def changeBorderRadius_def)

text \<open>
  With a border of width 2 and color \<open>transparent\<close> the rectangle filled is the inner one, at
  \<open>(2, 2)\<close> of size 96 by 16, not the outer one at \<open>(0, 0)\<close> of size 100 by 20; with a
  drag handle there are two fills.
\<close>

theorem single_fill_counterexample:
  "painted (run (drawRoundRectWithBorder True 0 0 100 20 ''#2196F3'' 2 (4, 0, 0, 4)
       ''transparent'' ''#FFFFFF'' False False None) initial_context)
     = [FilledPath [RoundRect 2 2 96 16 (2, 0, 0, 2)] (Color ''#2196F3'')]
   \<and> length (filter isFill (drawRoundRectWithBorder True 0 0 100 20 ''#2196F3'' 2 (4, 0, 0, 4)
       ''transparent'' ''#FFFFFF'' True False None)) = 2"
  by (simp add: drawRoundRectWithBorder_def Let_def truthy_def changeBorderRadius_def
      initial_context_def drawDragHandle_def DRAG_HANDLE_SIZE_def ADD_BUTTON_SIZE_def)

section \<open>Square corners stay square\<close>

text \<open>
  Claim C10. \<open>changeBorderRadius\<close> keeps a radius of 0 and adds the offset to every radius
  that is not 0. \<open>drawRoundRectWithBorder\<close> draws, on its short path, the outer rectangle with
  the outer radii and, on its long path, the rectangle inset by half the border with the outer
  radii changed by minus half the border width, then (unless the background is
  \<open>transparent\<close>) the rectangle inset by the border with the outer radii changed by minus the
  border width; nothing else it issues is a rounded rectangle or an arc of one. So when the
  corner of index \<open>i\<close> of the outer rectangle is square, each of these three radii tuples has
  radius 0 at \<open>i\<close>: the native \<open>roundRect\<close> gets radius 0 for that corner, and the path built
  from lines and arcs is, for that corner, the single line to the corner itself. Every
  \<open>roundRect\<close> of the helper has radius 0 at \<open>i\<close>, and on the other path the helper draws at
  most two arcs for each outer corner that is not square.
\<close>

theorem square_corners:
  assumes "i < 4" and "radii_list outer ! i = 0"
  shows "radii_list (changeBorderRadius outer offset) ! i = 0
   \<and> (\<forall>j<4. radii_list outer ! j \<noteq> 0 \<longrightarrow>
          radii_list (changeBorderRadius outer offset) ! j = radii_list outer ! j + offset)
   \<and> (bw = 0 \<or> bc = [] \<or> bc = bg \<longrightarrow>
        drawRoundRectWithBorder rr left top' w h bg bw outer bc tc draggable closeButton ic
          = Save # drawRoundRect rr left top' w h outer @ [SetFillStyle (Color bg), Fill, Restore])
   \<and> (\<not> (bw = 0 \<or> bc = [] \<or> bc = bg) \<longrightarrow>
        (\<exists>rest. drawRoundRectWithBorder rr left top' w h bg bw outer bc tc draggable closeButton ic
           = Save #
             drawRoundRect rr (left + bw / 2) (top' + bw / 2) (w - bw) (h - bw)
               (changeBorderRadius outer (- (bw / 2))) @
             (if bg \<noteq> ''transparent''
              then drawRoundRect rr
                     (left + bw - (if closeButton then 21 + (if draggable then 12 else 0) + 1 else 0))
                     (top' + bw)
                     ((if closeButton then w + (if draggable then 12 else 0) else w) - bw * 2)
                     (h - bw * 2) (changeBorderRadius outer (- bw))
              else []) @
             rest
         \<and> (\<forall>c \<in> set rest. \<not> isRoundRect c \<and> \<not> isArcTo c)))
   \<and> (\<forall>r \<in> {outer, changeBorderRadius outer (- (bw / 2)), changeBorderRadius outer (- bw)}.
        radii_list r ! i = 0
        \<and> drawRoundRect True xr yr wr hr r = [BeginPath, RoundRect xr yr wr hr r]
        \<and> drawRoundRect False xr yr wr hr r
            = BeginPath # cornerPath xr yr wr hr r 1 @ cornerPath xr yr wr hr r 2
                @ cornerPath xr yr wr hr r 3 @ cornerPath xr yr wr hr r 0
        \<and> cornerPath xr yr wr hr r i
            = [case rect_corner xr yr wr hr i of (cx, cy) \<Rightarrow> LineTo cx cy])
   \<and> (\<forall>c \<in> set (drawRoundRectWithBorder True left top' w h bg bw outer bc tc draggable closeButton ic).
        \<forall>x y w' h' r. c = RoundRect x y w' h' r \<longrightarrow> radii_list r ! i = 0)
   \<and> length (filter isArcTo
        (drawRoundRectWithBorder False left top' w h bg bw outer bc tc draggable closeButton ic))
      \<le> 2 * length (filter (\<lambda>v. v \<noteq> 0) (radii_list outer))"
proof (intro conjI)
  show zero: "radii_list (changeBorderRadius outer offset) ! i = 0" for offset
    using assms by (rule changeBorderRadius_zero)
  show "\<forall>j<4. radii_list outer ! j \<noteq> 0 \<longrightarrow>
          radii_list (changeBorderRadius outer offset) ! j = radii_list outer ! j + offset"
    by (simp add: changeBorderRadius_offset)
  show "bw = 0 \<or> bc = [] \<or> bc = bg \<longrightarrow>
        drawRoundRectWithBorder rr left top' w h bg bw outer bc tc draggable closeButton ic
          = Save # drawRoundRect rr left top' w h outer @ [SetFillStyle (Color bg), Fill, Restore]"
    by (auto simp add: drawRoundRectWithBorder_def truthy_def)
  show "\<not> (bw = 0 \<or> bc = [] \<or> bc = bg) \<longrightarrow>
        (\<exists>rest. drawRoundRectWithBorder rr left top' w h bg bw outer bc tc draggable closeButton ic
           = Save #
             drawRoundRect rr (left + bw / 2) (top' + bw / 2) (w - bw) (h - bw)
               (changeBorderRadius outer (- (bw / 2))) @
             (if bg \<noteq> ''transparent''
              then drawRoundRect rr
                     (left + bw - (if closeButton then 21 + (if draggable then 12 else 0) + 1 else 0))
                     (top' + bw)
                     ((if closeButton then w + (if draggable then 12 else 0) else w) - bw * 2)
                     (h - bw * 2) (changeBorderRadius outer (- bw))
              else []) @
             rest
         \<and> (\<forall>c \<in> set rest. \<not> isRoundRect c \<and> \<not> isArcTo c))"
    using drawRoundRectWithBorder_late by blast
  have each: "radii_list r ! i = 0
        \<and> drawRoundRect True xr yr wr hr r = [BeginPath, RoundRect xr yr wr hr r]
        \<and> drawRoundRect False xr yr wr hr r
            = BeginPath # cornerPath xr yr wr hr r 1 @ cornerPath xr yr wr hr r 2
                @ cornerPath xr yr wr hr r 3 @ cornerPath xr yr wr hr r 0
        \<and> cornerPath xr yr wr hr r i
            = [case rect_corner xr yr wr hr i of (cx, cy) \<Rightarrow> LineTo cx cy]"
    if "radii_list r ! i = 0" for r
    using that assms(1) by (simp add: drawRoundRect_True drawRoundRect_corners cornerPath_square)
  show "\<forall>r \<in> {outer, changeBorderRadius outer (- (bw / 2)), changeBorderRadius outer (- bw)}.
        radii_list r ! i = 0
        \<and> drawRoundRect True xr yr wr hr r = [BeginPath, RoundRect xr yr wr hr r]
        \<and> drawRoundRect False xr yr wr hr r
            = BeginPath # cornerPath xr yr wr hr r 1 @ cornerPath xr yr wr hr r 2
                @ cornerPath xr yr wr hr r 3 @ cornerPath xr yr wr hr r 0
        \<and> cornerPath xr yr wr hr r i
            = [case rect_corner xr yr wr hr i of (cx, cy) \<Rightarrow> LineTo cx cy]"
    using each assms(2) zero by blast
  show "\<forall>c \<in> set (drawRoundRectWithBorder True left top' w h bg bw outer bc tc draggable closeButton ic).
        \<forall>x y w' h' r. c = RoundRect x y w' h' r \<longrightarrow> radii_list r ! i = 0"
  proof (intro ballI allI impI)
    fix c x y w' h' r
    assume "c \<in> set (drawRoundRectWithBorder True left top' w h bg bw outer bc tc draggable closeButton ic)"
      and "c = RoundRect x y w' h' r"
    then have "r = outer \<or> r = changeBorderRadius outer (- (bw / 2)) \<or> r = changeBorderRadius outer (- bw)"
      using native_radii by blast
    then show "radii_list r ! i = 0"
      using assms changeBorderRadius_zero by blast
  qed
  show "length (filter isArcTo
        (drawRoundRectWithBorder False left top' w h bg bw outer bc tc draggable closeButton ic))
      \<le> 2 * length (filter (\<lambda>v. v \<noteq> 0) (radii_list outer))"
    by (rule fallback_arcs)
qed

theorem square_corners_witness:
  "(1::nat) < 4 \<and> radii_list (4, 0, 0, 4) ! 1 = 0
   \<and> radii_list (changeBorderRadius (4, 0, 0, 4) (- 1)) ! 1 = 0
   \<and> radii_list (changeBorderRadius (4, 0, 0, 4) (- 1)) ! 0 = 3
   \<and> cornerPath 1 1 98 18 (changeBorderRadius (4, 0, 0, 4) (- 1)) 1 = [LineTo 99 1]
   \<and> drawRoundRectWithBorder False 0 0 100 20 ''#2196F3'' 0 (4, 0, 0, 4) ''#EEEEEE'' ''#FFFFFF''
        False False None
       = [Save, BeginPath, LineTo 100 0, LineTo 100 20, LineTo 4 20, ArcTo 0 20 0 16 4,
          LineTo 0 4, ArcTo 0 0 4 0 4, SetFillStyle (Color ''#2196F3''), Fill, Restore]
   \<and> length (filter isArcTo (drawRoundRectWithBorder False 0 0 100 20 ''#2196F3'' 2 (4, 0, 0, 4)
        ''#EEEEEE'' ''#FFFFFF'' False False None)) \<le> 4"
proof -
  have i: "(1::nat) < 4" by simp
  have z: "radii_list (4, 0, 0, 4) ! 1 = 0" by simp
  note late = square_corners [OF i z, where offset = "- 1" and xr = 1 and yr = 1 and wr = 98
        and hr = 18 and left = 0 and top' = 0 and w = 100 and h = 20 and bg = "''#2196F3''"
        and bw = 2 and bc = "''#EEEEEE''" and tc = "''#FFFFFF''" and draggable = False
        and closeButton = False and ic = None and rr = False]
  note early = square_corners [OF i z, where offset = "- 1" and xr = 1 and yr = 1 and wr = 98
        and hr = 18 and left = 0 and top' = 0 and w = 100 and h = 20 and bg = "''#2196F3''"
        and bw = 0 and bc = "''#EEEEEE''" and tc = "''#FFFFFF''" and draggable = False
        and closeButton = False and ic = None and rr = False]
  have a: "radii_list (changeBorderRadius (4, 0, 0, 4) (- 1)) ! 1 = 0"
    using late by blast
  have "radii_list (4, 0, 0, 4) ! 0 \<noteq> 0 \<longrightarrow>
          radii_list (changeBorderRadius (4, 0, 0, 4) (- 1)) ! 0 = radii_list (4, 0, 0, 4) ! 0 + (- 1)"
    using late by simp
  then have b: "radii_list (changeBorderRadius (4, 0, 0, 4) (- 1)) ! 0 = 3"
    by simp
  have "cornerPath 1 1 98 18 (changeBorderRadius (4, 0, 0, 4) (- (2 / 2))) 1
          = [case rect_corner 1 1 98 18 1 of (cx, cy) \<Rightarrow> LineTo cx cy]"
    using late by blast
  then have c: "cornerPath 1 1 98 18 (changeBorderRadius (4, 0, 0, 4) (- 1)) 1 = [LineTo 99 1]"
    by simp
  have "drawRoundRectWithBorder False 0 0 100 20 ''#2196F3'' 0 (4, 0, 0, 4) ''#EEEEEE'' ''#FFFFFF''
        False False None
       = Save # drawRoundRect False 0 0 100 20 (4, 0, 0, 4)
           @ [SetFillStyle (Color ''#2196F3''), Fill, Restore]"
    using early by blast
  then have d: "drawRoundRectWithBorder False 0 0 100 20 ''#2196F3'' 0 (4, 0, 0, 4) ''#EEEEEE''
        ''#FFFFFF'' False False None
       = [Save, BeginPath, LineTo 100 0, LineTo 100 20, LineTo 4 20, ArcTo 0 20 0 16 4,
          LineTo 0 4, ArcTo 0 0 4 0 4, SetFillStyle (Color ''#2196F3''), Fill, Restore]"
    by simp
  have e: "length (filter isArcTo (drawRoundRectWithBorder False 0 0 100 20 ''#2196F3'' 2
        (4, 0, 0, 4) ''#EEEEEE'' ''#FFFFFF'' False False None)) \<le> 4"
    using late by simp
  show ?thesis using i z a b c d e by blast
qed

section \<open>The separator\<close>

text \<open>
  Claim C4, as the code has it. For a label that is drawn, the calls of \<open>draw\<close> in the bitmap
  space are, whatever the helper of the label body does: the font, the label body on the
  background color, the tick when \<open>tickVisible\<close> is set, the label body with the border, and
  then the separator if and only if the flag \<open>borderVisible\<close> of the data is set, which is the
  pane's background color as fill style and one rectangle. The rectangle starts at the right
  edge of the bitmap minus the separator thickness for a label aligned right and at 0 for one
  aligned left, at the top of the label; its width is the separator thickness of the bitmap
  group, which is 0 unless \<open>separatorVisible\<close> is set and the border size is positive; its
  height is the total height of the label. When the label body fills no rectangle, the
  rectangles filled are the tick, if visible, and the separator, if \<open>borderVisible\<close> is set.
\<close>

theorem separator_layer:
  assumes "visible (data this)" and "labelText (data this) \<noteq> []"
  shows "bitmapCalls (draw helper this scope opts cache align draggable closeButton ic)
     = SetFont (font opts) #
       drawLabelBody helper (drawGeometry this scope opts cache align closeButton ic)
         (color (data this)) draggable closeButton ic (background (commonData this))
         ''transparent'' @
       (if tickVisible (data this)
        then [SetFillStyle (Color (color (data this))),
              FillRect
                (b_xInside (bitmap (drawGeometry this scope opts cache align closeButton ic)))
                (b_yMid (bitmap (drawGeometry this scope opts cache align closeButton ic)))
                (b_xTick (bitmap (drawGeometry this scope opts cache align closeButton ic))
                 - b_xInside (bitmap (drawGeometry this scope opts cache align closeButton ic)))
                (b_tickHeight (bitmap (drawGeometry this scope opts cache align closeButton ic)))]
        else []) @
       drawLabelBody helper (drawGeometry this scope opts cache align closeButton ic)
         (color (data this)) draggable closeButton ic ''transparent''
         (background (commonData this)) @
       (if borderVisible (data this)
        then [SetFillStyle (Color (paneBackgroundColor opts)),
              FillRect
                (if align = AlignRight
                 then width (bitmapSize scope)
                        - b_horzBorder (bitmap (drawGeometry this scope opts cache align closeButton ic))
                 else 0)
                (b_yTop (bitmap (drawGeometry this scope opts cache align closeButton ic)))
                (b_horzBorder (bitmap (drawGeometry this scope opts cache align closeButton ic)))
                (b_yBottom (bitmap (drawGeometry this scope opts cache align closeButton ic))
                 - b_yTop (bitmap (drawGeometry this scope opts cache align closeButton ic)))]
        else [])
   \<and> b_horzBorder (bitmap (drawGeometry this scope opts cache align closeButton ic))
     = (if separatorVisible (data this) \<and> 0 < borderSize opts
        then of_int (max 1 \<lfloor>borderSize opts * horizontalPixelRatio scope\<rfloor>) else 0)
   \<and> b_yBottom (bitmap (drawGeometry this scope opts cache align closeButton ic))
       - b_yTop (bitmap (drawGeometry this scope opts cache align closeButton ic))
     = b_totalHeight (bitmap (drawGeometry this scope opts cache align closeButton ic))
   \<and> (filter isFillRect
         (drawLabelBody helper (drawGeometry this scope opts cache align closeButton ic)
            (color (data this)) draggable closeButton ic (background (commonData this))
            ''transparent'') = []
       \<and> filter isFillRect
         (drawLabelBody helper (drawGeometry this scope opts cache align closeButton ic)
            (color (data this)) draggable closeButton ic ''transparent''
            (background (commonData this))) = []
       \<longrightarrow>
       filter isFillRect
         (bitmapCalls (draw helper this scope opts cache align draggable closeButton ic))
       = (if tickVisible (data this)
          then [FillRect
                  (b_xInside (bitmap (drawGeometry this scope opts cache align closeButton ic)))
                  (b_yMid (bitmap (drawGeometry this scope opts cache align closeButton ic)))
                  (b_xTick (bitmap (drawGeometry this scope opts cache align closeButton ic))
                   - b_xInside (bitmap (drawGeometry this scope opts cache align closeButton ic)))
                  (b_tickHeight (bitmap (drawGeometry this scope opts cache align closeButton ic)))]
          else []) @
         (if borderVisible (data this)
          then [FillRect
                  (if align = AlignRight
                   then width (bitmapSize scope)
                          - b_horzBorder (bitmap (drawGeometry this scope opts cache align closeButton ic))
                   else 0)
                  (b_yTop (bitmap (drawGeometry this scope opts cache align closeButton ic)))
                  (b_horzBorder (bitmap (drawGeometry this scope opts cache align closeButton ic)))
                  (b_totalHeight (bitmap (drawGeometry this scope opts cache align closeButton ic)))]
          else []))"
proof (intro conjI impI)
  note calls = draw_bitmapCalls [OF assms, of helper scope opts cache align draggable closeButton ic]
  show "bitmapCalls (draw helper this scope opts cache align draggable closeButton ic)
     = SetFont (font opts) #
       drawLabelBody helper (drawGeometry this scope opts cache align closeButton ic)
         (color (data this)) draggable closeButton ic (background (commonData this))
         ''transparent'' @
       (if tickVisible (data this)
        then [SetFillStyle (Color (color (data this))),
              FillRect
                (b_xInside (bitmap (drawGeometry this scope opts cache align closeButton ic)))
                (b_yMid (bitmap (drawGeometry this scope opts cache align closeButton ic)))
                (b_xTick (bitmap (drawGeometry this scope opts cache align closeButton ic))
                 - b_xInside (bitmap (drawGeometry this scope opts cache align closeButton ic)))
                (b_tickHeight (bitmap (drawGeometry this scope opts cache align closeButton ic)))]
        else []) @
       drawLabelBody helper (drawGeometry this scope opts cache align closeButton ic)
         (color (data this)) draggable closeButton ic ''transparent''
         (background (commonData this)) @
       (if borderVisible (data this)
        then [SetFillStyle (Color (paneBackgroundColor opts)),
              FillRect
                (if align = AlignRight
                 then width (bitmapSize scope)
                        - b_horzBorder (bitmap (drawGeometry this scope opts cache align closeButton ic))
                 else 0)
                (b_yTop (bitmap (drawGeometry this scope opts cache align closeButton ic)))
                (b_horzBorder (bitmap (drawGeometry this scope opts cache align closeButton ic)))
                (b_yBottom (bitmap (drawGeometry this scope opts cache align closeButton ic))
                 - b_yTop (bitmap (drawGeometry this scope opts cache align closeButton ic)))]
        else [])"
    by (rule calls)
  show "b_horzBorder (bitmap (drawGeometry this scope opts cache align closeButton ic))
     = (if separatorVisible (data this) \<and> 0 < borderSize opts
        then of_int (max 1 \<lfloor>borderSize opts * horizontalPixelRatio scope\<rfloor>) else 0)"
    using geometry_horzBorder [of "this\<lparr>iconColor := ic\<rparr>" "scope\<lparr>contextFont := font opts\<rparr>"]
    by simp
  show "b_yBottom (bitmap (drawGeometry this scope opts cache align closeButton ic))
       - b_yTop (bitmap (drawGeometry this scope opts cache align closeButton ic))
     = b_totalHeight (bitmap (drawGeometry this scope opts cache align closeButton ic))"
    by (rule geometry_span)
  assume "filter isFillRect
         (drawLabelBody helper (drawGeometry this scope opts cache align closeButton ic)
            (color (data this)) draggable closeButton ic (background (commonData this))
            ''transparent'') = []
       \<and> filter isFillRect
         (drawLabelBody helper (drawGeometry this scope opts cache align closeButton ic)
            (color (data this)) draggable closeButton ic ''transparent''
            (background (commonData this))) = []"
  then show "filter isFillRect
         (bitmapCalls (draw helper this scope opts cache align draggable closeButton ic))
       = (if tickVisible (data this)
          then [FillRect
                  (b_xInside (bitmap (drawGeometry this scope opts cache align closeButton ic)))
                  (b_yMid (bitmap (drawGeometry this scope opts cache align closeButton ic)))
                  (b_xTick (bitmap (drawGeometry this scope opts cache align closeButton ic))
                   - b_xInside (bitmap (drawGeometry this scope opts cache align closeButton ic)))
                  (b_tickHeight (bitmap (drawGeometry this scope opts cache align closeButton ic)))]
          else []) @
         (if borderVisible (data this)
          then [FillRect
                  (if align = AlignRight
                   then width (bitmapSize scope)
                          - b_horzBorder (bitmap (drawGeometry this scope opts cache align closeButton ic))
                   else 0)
                  (b_yTop (bitmap (drawGeometry this scope opts cache align closeButton ic)))
                  (b_horzBorder (bitmap (drawGeometry this scope opts cache align closeButton ic)))
                  (b_totalHeight (bitmap (drawGeometry this scope opts cache align closeButton ic)))]
          else [])"
    unfolding calls by (simp add: geometry_span)
qed

theorem separator_layer_witness:
  "visible (data example_renderer) \<and> labelText (data example_renderer) \<noteq> []
   \<and> borderVisible (data example_renderer)
   \<and> filter isFillRect (bitmapCalls (draw (drawRoundRectWithBorder True) example_renderer
        (example_scope 2) example_options example_cache AlignRight False False None))
     = [FillRect 118 199 (- 10) 2, FillRect 118 184 2 32]
   \<and> \<not> borderVisible (data separator_only_renderer)
   \<and> bitmapCalls (draw (drawRoundRectWithBorder True) separator_only_renderer
        (example_scope 2) example_options example_cache AlignRight False False None)
     = [SetFont ''12px sans-serif'',
        Save, BeginPath, RoundRect 27 185 90 30 (3, 0, 0, 3),
        BeginPath, RoundRect 28 186 88 28 (2, 0, 0, 2),
        SetFillStyle (Color ''#2196F3''), Fill, Restore,
        Save, BeginPath, RoundRect 27 185 90 30 (3, 0, 0, 3),
        SetLineWidth 2, SetStrokeStyle (Color ''#2196F3''), ClosePath, Stroke, Restore]"
proof -
  have v: "visible (data example_renderer)" and t: "labelText (data example_renderer) \<noteq> []"
    and v': "visible (data separator_only_renderer)"
    and t': "labelText (data separator_only_renderer) \<noteq> []"
    by (simp_all add: example_defs)
  have g: "bitmap (drawGeometry example_renderer (example_scope 2) example_options
             example_cache AlignRight False None)
           = \<lparr> b_yTop = 184, b_yMid = 199, b_yBottom = 216, b_totalWidth = 92,
               b_totalHeight = 32, b_radius = 4, b_horzBorder = 2, b_xOutside = 26,
               b_xInside = 118, b_xTick = 108, b_tickHeight = 2, b_right = 120 \<rparr>"
    by (simp add: example_defs geometry_defs number_defs)
  have g': "drawGeometry separator_only_renderer (example_scope 2) example_options
             example_cache AlignRight False None
           = \<lparr> alignRight = True,
               bitmap = \<lparr> b_yTop = 184, b_yMid = 199, b_yBottom = 216, b_totalWidth = 92,
               b_totalHeight = 32, b_radius = 4, b_horzBorder = 2, b_xOutside = 26,
               b_xInside = 118, b_xTick = 108, b_tickHeight = 2, b_right = 120 \<rparr>,
               media = \<lparr> m_yTop = 92, m_yBottom = 108, m_xText = 50, m_textMidCorrection = 0 \<rparr> \<rparr>"
    by (simp add: example_defs geometry_defs number_defs)
  have d: "borderVisible (data example_renderer)" "tickVisible (data example_renderer)"
    "width (bitmapSize (example_scope 2)) = 120"
    by (simp_all add: example_defs)
  have d': "\<not> borderVisible (data separator_only_renderer)"
    "\<not> tickVisible (data separator_only_renderer)"
    "font example_options = ''12px sans-serif''"
    "color (data separator_only_renderer) = ''#EEEEEE''"
    "background (commonData separator_only_renderer) = ''#2196F3''"
    by (simp_all add: example_defs)
  have a: "filter isFillRect (bitmapCalls (draw (drawRoundRectWithBorder True) example_renderer
        (example_scope 2) example_options example_cache AlignRight False False None))
     = [FillRect 118 199 (- 10) 2, FillRect 118 184 2 32]"
    using separator_layer [OF v t, where helper = "drawRoundRectWithBorder True"
        and scope = "example_scope 2" and opts = example_options and cache = example_cache
        and align = AlignRight and draggable = False and closeButton = False and ic = None]
    unfolding g by (simp add: drawLabelBody_no_fillRect d)
  have "bitmapCalls (draw (drawRoundRectWithBorder True) separator_only_renderer
        (example_scope 2) example_options example_cache AlignRight False False None)
     = SetFont ''12px sans-serif'' #
       drawLabelBody (drawRoundRectWithBorder True)
         (drawGeometry separator_only_renderer (example_scope 2) example_options
             example_cache AlignRight False None)
         ''#EEEEEE'' False False None ''#2196F3'' ''transparent'' @
       drawLabelBody (drawRoundRectWithBorder True)
         (drawGeometry separator_only_renderer (example_scope 2) example_options
             example_cache AlignRight False None)
         ''#EEEEEE'' False False None ''transparent'' ''#2196F3''"
    using separator_layer [OF v' t', where helper = "drawRoundRectWithBorder True"
        and scope = "example_scope 2" and opts = example_options and cache = example_cache
        and align = AlignRight and draggable = False and closeButton = False and ic = None]
    by (simp add: d')
  then have b: "bitmapCalls (draw (drawRoundRectWithBorder True) separator_only_renderer
        (example_scope 2) example_options example_cache AlignRight False False None)
     = [SetFont ''12px sans-serif'',
        Save, BeginPath, RoundRect 27 185 90 30 (3, 0, 0, 3),
        BeginPath, RoundRect 28 186 88 28 (2, 0, 0, 2),
        SetFillStyle (Color ''#2196F3''), Fill, Restore,
        Save, BeginPath, RoundRect 27 185 90 30 (3, 0, 0, 3),
        SetLineWidth 2, SetStrokeStyle (Color ''#2196F3''), ClosePath, Stroke, Restore]"
    unfolding g'
    by (simp add: drawLabelBody_def drawRoundRectWithBorder_def Let_def truthy_def
        changeBorderRadius_def)
  show ?thesis using v t d(1) d'(1) a b by blast
qed

text \<open>
  With \<open>separatorVisible\<close> set and \<open>borderVisible\<close> not, no rectangle is filled (the tick is
  switched off here); with \<open>borderVisible\<close> set and \<open>separatorVisible\<close> not, a rectangle of
  width 0 is filled.
\<close>

theorem separator_layer_counterexample:
  "separatorVisible (data separator_only_renderer)
   \<and> \<not> borderVisible (data separator_only_renderer)
   \<and> filter isFillRect (bitmapCalls (draw (drawRoundRectWithBorder True) separator_only_renderer
        (example_scope 2) example_options example_cache AlignRight False False None)) = []
   \<and> \<not> separatorVisible (data border_only_renderer)
   \<and> borderVisible (data border_only_renderer)
   \<and> filter isFillRect (bitmapCalls (draw (drawRoundRectWithBorder True) border_only_renderer
        (example_scope 2) example_options example_cache AlignRight False False None))
       = [FillRect 120 184 0 32]"
proof -
  let ?r1 = separator_only_renderer
  let ?r2 = border_only_renderer
  have d1: "visible (data ?r1)" "labelText (data ?r1) \<noteq> []"
    and d2: "visible (data ?r2)" "labelText (data ?r2) \<noteq> []"
    by (simp_all add: example_defs)
  have c1: "filter isFillRect (bitmapCalls (draw (drawRoundRectWithBorder True) ?r1
        (example_scope 2) example_options example_cache AlignRight False False None)) = []"
    unfolding draw_fillRects [OF d1] by (simp add: example_defs)
  have c2: "filter isFillRect (bitmapCalls (draw (drawRoundRectWithBorder True) ?r2
        (example_scope 2) example_options example_cache AlignRight False False None))
       = [FillRect 120 184 0 32]"
    unfolding draw_fillRects [OF d2] by (simp add: example_defs geometry_defs number_defs)
  show ?thesis using c1 c2 by (simp add: example_defs)
qed

end
